theory Spec2Isabelle
  imports Complex_Main
begin

section \<open>Data model (types.ts)\<close>

text \<open>
  The source computes with IEEE doubles. The model computes with real numbers, so every
  statement below is exact where the source rounds. A division by zero, which gives
  Infinity or NaN in the source, has no counterpart in the reals: statements whose
  conclusion depends on a division by a mass carry the hypothesis that the mass is not
  zero. \<open>stepIndex\<close> is a natural number.
\<close>

type_synonym Vector3 = "real \<times> real \<times> real"
type_synonym Quaternion = "real \<times> real \<times> real \<times> real"

record PointMassConfig =
  pmc_id :: string
  pmc_mass :: real
  pmc_position :: Vector3
  pmc_velocity :: Vector3
  pmc_radius :: "real option"
  pmc_color :: "string option"

record RigidBodyBoxConfig =
  rbc_id :: string
  rbc_mass :: real
  rbc_size :: Vector3
  rbc_position :: Vector3
  rbc_velocity :: Vector3
  rbc_orientation :: Quaternion
  rbc_angularVelocity :: Vector3
  rbc_color :: "string option"

record SpringConfig =
  spring_id :: string
  aId :: string
  bId :: string
  restLength :: real
  stiffness :: real
  damping :: "real option"

datatype JointType = Fixed | Hinge

record JointConfig =
  joint_id :: string
  joint_type :: JointType
  joint_aId :: string
  joint_bId :: string

record GravityForceConfig =
  g :: real
  direction :: "Vector3 option"

record LinearDragForceConfig =
  coefficient :: real

record ForcesConfig =
  gravity :: "GravityForceConfig option"
  linearDrag :: "LinearDragForceConfig option"

datatype IntegratorName = Euler | Semi | Rk4

record SimulationConfig =
  cfg_dt :: real
  cfg_integrator :: IntegratorName
  cfg_snapshotIntervalMs :: "real option"
  cfg_forces :: "ForcesConfig option"
  cfg_pointMasses :: "PointMassConfig list option"
  cfg_rigidBodies :: "RigidBodyBoxConfig list option"
  cfg_springs :: "SpringConfig list option"
  cfg_joints :: "JointConfig list option"

record PointMassState =
  pm_id :: string
  pm_mass :: real
  pm_position :: Vector3
  pm_velocity :: Vector3

record RigidBodyBoxState =
  rb_id :: string
  rb_mass :: real
  rb_size :: Vector3
  rb_position :: Vector3
  rb_velocity :: Vector3
  rb_orientation :: Quaternion
  rb_angularVelocity :: Vector3

record SimulationState =
  time :: real
  stepIndex :: nat
  pointMasses :: "PointMassState list"
  rigidBodies :: "RigidBodyBoxState list"

text \<open>
  Reading a property of \<open>undefined\<close> throws a TypeError in the source; that is the only
  way the engine can fail, and it is a value of the model.
\<close>

datatype error = TypeError

definition bindE :: "error + 'a \<Rightarrow> ('a \<Rightarrow> error + 'b) \<Rightarrow> error + 'b" where
  "bindE m f = (case m of Inl err \<Rightarrow> Inl err | Inr x \<Rightarrow> f x)"

subsection \<open>Vector and quaternion helpers\<close>

fun vecAdd :: "Vector3 \<Rightarrow> Vector3 \<Rightarrow> Vector3" where
  "vecAdd (a0, a1, a2) (b0, b1, b2) = (a0 + b0, a1 + b1, a2 + b2)"

fun vecSub :: "Vector3 \<Rightarrow> Vector3 \<Rightarrow> Vector3" where
  "vecSub (a0, a1, a2) (b0, b1, b2) = (a0 - b0, a1 - b1, a2 - b2)"

fun vecScale :: "Vector3 \<Rightarrow> real \<Rightarrow> Vector3" where
  "vecScale (a0, a1, a2) s = (a0 * s, a1 * s, a2 * s)"

fun vecDot :: "Vector3 \<Rightarrow> Vector3 \<Rightarrow> real" where
  "vecDot (a0, a1, a2) (b0, b1, b2) = a0 * b0 + a1 * b1 + a2 * b2"

definition vecLength :: "Vector3 \<Rightarrow> real" where
  "vecLength a = sqrt (vecDot a a)"

fun quatMultiply :: "Quaternion \<Rightarrow> Quaternion \<Rightarrow> Quaternion" where
  "quatMultiply (ax, ay, az, aw) (bx, by, bz, bw) =
     (aw * bx + ax * bw + ay * bz - az * by,
      aw * by - ax * bz + ay * bw + az * bx,
      aw * bz + ax * by - ay * bx + az * bw,
      aw * bw - ax * bx - ay * by - az * bz)"

text \<open>\<open>Math.hypot\<close> of four numbers is the square root of the sum of their squares.\<close>

fun hypot4 :: "Quaternion \<Rightarrow> real" where
  "hypot4 (q0, q1, q2, q3) = sqrt (q0 * q0 + q1 * q1 + q2 * q2 + q3 * q3)"

definition quatNormalize :: "Quaternion \<Rightarrow> Quaternion" where
  "quatNormalize q =
     (let len = hypot4 q in
      if len = 0 then (0, 0, 0, 1)
      else (case q of (q0, q1, q2, q3) \<Rightarrow> (q0 / len, q1 / len, q2 / len, q3 / len)))"

fun quatFromAngularVelocity :: "Vector3 \<Rightarrow> Quaternion" where
  "quatFromAngularVelocity (o0, o1, o2) = (o0, o1, o2, 0)"

section \<open>Force model (forces.ts)\<close>

definition gravityAcceleration ::
  "real \<Rightarrow> Vector3 \<Rightarrow> Vector3 \<Rightarrow> GravityForceConfig option \<Rightarrow> Vector3" where
  "gravityAcceleration mass position velocity config =
     (case config of
        None \<Rightarrow> (0, 0, 0)
      | Some c \<Rightarrow>
          vecScale (case direction c of None \<Rightarrow> (0, -1, 0) | Some d \<Rightarrow> d) (g c))"

definition linearDragAcceleration ::
  "real \<Rightarrow> Vector3 \<Rightarrow> Vector3 \<Rightarrow> LinearDragForceConfig option \<Rightarrow> Vector3" where
  "linearDragAcceleration mass position velocity config =
     (case config of
        None \<Rightarrow> (0, 0, 0)
      | Some c \<Rightarrow>
          if mass \<le> 0 then (0, 0, 0)
          else vecScale velocity (- coefficient c / mass))"

definition sumAccelerationsForPointMass ::
  "PointMassState \<Rightarrow> ForcesConfig option \<Rightarrow> Vector3" where
  "sumAccelerationsForPointMass point fs =
     (let aG = gravityAcceleration (pm_mass point) (pm_position point) (pm_velocity point)
                 (Option.bind fs gravity);
          aD = linearDragAcceleration (pm_mass point) (pm_position point) (pm_velocity point)
                 (Option.bind fs linearDrag)
      in vecAdd aG aD)"

section \<open>Integrators (integrators.ts)\<close>

record Derivative =
  pointAccelerations :: "Vector3 list"
  rigidLinearAccelerations :: "Vector3 list"
  rigidAngularAccelerations :: "Vector3 list"

record DynamicsContext =
  ctx_computeDerivative :: "SimulationState \<Rightarrow> error + Derivative"
  ctx_dt :: real

definition advanceOrientation :: "Quaternion \<Rightarrow> Vector3 \<Rightarrow> real \<Rightarrow> Quaternion" where
  "advanceOrientation orientation angularVelocity h =
     (case angularVelocity of (w0, w1, w2) \<Rightarrow>
      let omegaQuat = quatFromAngularVelocity (w0 * 0.5 * h, w1 * 0.5 * h, w2 * 0.5 * h);
          dq = quatMultiply omegaQuat orientation
      in (case (orientation, dq) of ((o0, o1, o2, o3), (d0, d1, d2, d3)) \<Rightarrow>
            quatNormalize (o0 + d0, o1 + d1, o2 + d2, o3 + d3)))"

definition cloneState :: "SimulationState \<Rightarrow> SimulationState" where
  "cloneState st =
     \<lparr> time = time st,
       stepIndex = stepIndex st,
       pointMasses = map (\<lambda>p. \<lparr> pm_id = pm_id p, pm_mass = pm_mass p,
                                  pm_position = pm_position p, pm_velocity = pm_velocity p \<rparr>)
                         (pointMasses st),
       rigidBodies = map (\<lambda>r. \<lparr> rb_id = rb_id r, rb_mass = rb_mass r, rb_size = rb_size r,
                                  rb_position = rb_position r, rb_velocity = rb_velocity r,
                                  rb_orientation = rb_orientation r,
                                  rb_angularVelocity = rb_angularVelocity r \<rparr>)
                         (rigidBodies st) \<rparr>"

text \<open>
  Every integrator loop has the shape \<open>for (i = 0; i < bodies.length; i++)\<close> and reads
  the entry \<open>i\<close> of one or more derivative arrays. \<open>forEachBody f bodies ds\<close> is that loop
  over the bodies and the (zipped) derivative entries: an entry that is missing is
  \<open>undefined\<close> in the source, and reading its components throws.
\<close>

fun forEachBody :: "('a \<Rightarrow> 'b \<Rightarrow> 'a) \<Rightarrow> 'a list \<Rightarrow> 'b list \<Rightarrow> error + 'a list" where
  "forEachBody f [] ds = Inr []"
| "forEachBody f (x # xs) [] = Inl TypeError"
| "forEachBody f (x # xs) (d # ds) =
     (case forEachBody f xs ds of Inl err \<Rightarrow> Inl err | Inr ys \<Rightarrow> Inr (f x d # ys))"

text \<open>Loop bodies of \<open>integrateEuler\<close>; the intermediate states of \<open>integrateRK4\<close> repeat
  the same assignments with another step width.\<close>

definition eulerPointMass :: "real \<Rightarrow> PointMassState \<Rightarrow> Vector3 \<Rightarrow> PointMassState" where
  "eulerPointMass h p a =
     p\<lparr> pm_position := vecAdd (pm_position p) (vecScale (pm_velocity p) h),
        pm_velocity := vecAdd (pm_velocity p) (vecScale a h) \<rparr>"

definition eulerRigidBody ::
  "real \<Rightarrow> RigidBodyBoxState \<Rightarrow> Vector3 \<times> Vector3 \<Rightarrow> RigidBodyBoxState" where
  "eulerRigidBody h r acc =
     (case acc of (aL, aA) \<Rightarrow>
      let w = vecAdd (rb_angularVelocity r) (vecScale aA h) in
      r\<lparr> rb_position := vecAdd (rb_position r) (vecScale (rb_velocity r) h),
         rb_velocity := vecAdd (rb_velocity r) (vecScale aL h),
         rb_angularVelocity := w,
         rb_orientation := advanceOrientation (rb_orientation r) w h \<rparr>)"

definition integrateEuler :: "DynamicsContext \<Rightarrow> SimulationState \<Rightarrow> error + SimulationState" where
  "integrateEuler ctx current =
     bindE (ctx_computeDerivative ctx current) (\<lambda>derivative.
     let next = cloneState current;
         h = ctx_dt ctx;
         next = next\<lparr> time := time next + h, stepIndex := stepIndex next + 1 \<rparr>
     in
     bindE (forEachBody (eulerPointMass h) (pointMasses next)
              (pointAccelerations derivative)) (\<lambda>ps.
     bindE (forEachBody (eulerRigidBody h) (rigidBodies next)
              (zip (rigidLinearAccelerations derivative)
                   (rigidAngularAccelerations derivative))) (\<lambda>rs.
     Inr (next\<lparr> pointMasses := ps, rigidBodies := rs \<rparr>))))"

text \<open>Loop bodies of \<open>integrateSemiImplicitEuler\<close>: the velocity first, then the position
  from the new velocity.\<close>

definition semiPointMass :: "real \<Rightarrow> PointMassState \<Rightarrow> Vector3 \<Rightarrow> PointMassState" where
  "semiPointMass h p a =
     (let v = vecAdd (pm_velocity p) (vecScale a h) in
      p\<lparr> pm_velocity := v,
         pm_position := vecAdd (pm_position p) (vecScale v h) \<rparr>)"

definition semiRigidBody ::
  "real \<Rightarrow> RigidBodyBoxState \<Rightarrow> Vector3 \<times> Vector3 \<Rightarrow> RigidBodyBoxState" where
  "semiRigidBody h r acc =
     (case acc of (aL, aA) \<Rightarrow>
      let v = vecAdd (rb_velocity r) (vecScale aL h);
          w = vecAdd (rb_angularVelocity r) (vecScale aA h) in
      r\<lparr> rb_velocity := v,
         rb_position := vecAdd (rb_position r) (vecScale v h),
         rb_angularVelocity := w,
         rb_orientation := advanceOrientation (rb_orientation r) w h \<rparr>)"

definition integrateSemiImplicitEuler ::
  "DynamicsContext \<Rightarrow> SimulationState \<Rightarrow> error + SimulationState" where
  "integrateSemiImplicitEuler ctx current =
     bindE (ctx_computeDerivative ctx current) (\<lambda>derivative.
     let next = cloneState current;
         h = ctx_dt ctx;
         next = next\<lparr> time := time next + h, stepIndex := stepIndex next + 1 \<rparr>
     in
     bindE (forEachBody (semiPointMass h) (pointMasses next)
              (pointAccelerations derivative)) (\<lambda>ps.
     bindE (forEachBody (semiRigidBody h) (rigidBodies next)
              (zip (rigidLinearAccelerations derivative)
                   (rigidAngularAccelerations derivative))) (\<lambda>rs.
     Inr (next\<lparr> pointMasses := ps, rigidBodies := rs \<rparr>))))"

text \<open>\<open>rk4Stage current k h\<close> is one of the intermediate states \<open>s2\<close>, \<open>s3\<close>, \<open>s4\<close> of
  \<open>integrateRK4\<close>: a clone of \<open>current\<close> whose bodies are advanced by \<open>h\<close> with the
  derivative \<open>k\<close>; time and stepIndex stay as they are.\<close>

definition rk4Stage :: "SimulationState \<Rightarrow> Derivative \<Rightarrow> real \<Rightarrow> error + SimulationState" where
  "rk4Stage current k h =
     (let s = cloneState current in
      bindE (forEachBody (eulerPointMass h) (pointMasses s) (pointAccelerations k)) (\<lambda>ps.
      bindE (forEachBody (eulerRigidBody h) (rigidBodies s)
               (zip (rigidLinearAccelerations k) (rigidAngularAccelerations k))) (\<lambda>rs.
      Inr (s\<lparr> pointMasses := ps, rigidBodies := rs \<rparr>))))"

fun rk4Blend :: "Vector3 \<Rightarrow> Vector3 \<Rightarrow> Vector3 \<Rightarrow> Vector3 \<Rightarrow> Vector3" where
  "rk4Blend (a0, a1, a2) (b0, b1, b2) (c0, c1, c2) (d0, d1, d2) =
     (a0 + 2 * b0 + 2 * c0 + d0, a1 + 2 * b1 + 2 * c1 + d1, a2 + 2 * b2 + 2 * c2 + d2)"

definition rk4PointMass ::
  "real \<Rightarrow> PointMassState \<Rightarrow> Vector3 \<times> Vector3 \<times> Vector3 \<times> Vector3 \<Rightarrow> PointMassState" where
  "rk4PointMass h p ks =
     (case ks of (k1, k2, k3, k4) \<Rightarrow>
      let vDelta = vecScale (rk4Blend k1 k2 k3 k4) (h / 6);
          v = vecAdd (pm_velocity p) vDelta in
      p\<lparr> pm_velocity := v,
         pm_position := vecAdd (pm_position p) (vecScale v h) \<rparr>)"

definition rk4RigidBody ::
  "real \<Rightarrow> RigidBodyBoxState \<Rightarrow>
   (Vector3 \<times> Vector3 \<times> Vector3 \<times> Vector3) \<times> (Vector3 \<times> Vector3 \<times> Vector3 \<times> Vector3) \<Rightarrow>
   RigidBodyBoxState" where
  "rk4RigidBody h r ks =
     (case ks of ((l1, l2, l3, l4), (a1, a2, a3, a4)) \<Rightarrow>
      let aL = rk4Blend l1 l2 l3 l4;
          aA = rk4Blend a1 a2 a3 a4;
          v = vecAdd (rb_velocity r) (vecScale aL (h / 6));
          w = vecAdd (rb_angularVelocity r) (vecScale aA (h / 6)) in
      r\<lparr> rb_velocity := v,
         rb_angularVelocity := w,
         rb_position := vecAdd (rb_position r) (vecScale v h),
         rb_orientation := advanceOrientation (rb_orientation r) w h \<rparr>)"

definition zip4 :: "'a list \<Rightarrow> 'a list \<Rightarrow> 'a list \<Rightarrow> 'a list \<Rightarrow> ('a \<times> 'a \<times> 'a \<times> 'a) list" where
  "zip4 as bs cs ds = zip as (zip bs (zip cs ds))"

definition integrateRK4 :: "DynamicsContext \<Rightarrow> SimulationState \<Rightarrow> error + SimulationState" where
  "integrateRK4 ctx current =
     (let h = ctx_dt ctx; halfDt = h * 0.5 in
      bindE (ctx_computeDerivative ctx current) (\<lambda>k1.
      bindE (rk4Stage current k1 halfDt) (\<lambda>s2.
      bindE (ctx_computeDerivative ctx s2) (\<lambda>k2.
      bindE (rk4Stage current k2 halfDt) (\<lambda>s3.
      bindE (ctx_computeDerivative ctx s3) (\<lambda>k3.
      bindE (rk4Stage current k3 h) (\<lambda>s4.
      bindE (ctx_computeDerivative ctx s4) (\<lambda>k4.
      let next = cloneState current;
          next = next\<lparr> time := time next + h, stepIndex := stepIndex next + 1 \<rparr>
      in
      bindE (forEachBody (rk4PointMass h) (pointMasses next)
               (zip4 (pointAccelerations k1) (pointAccelerations k2)
                     (pointAccelerations k3) (pointAccelerations k4))) (\<lambda>ps.
      bindE (forEachBody (rk4RigidBody h) (rigidBodies next)
               (zip (zip4 (rigidLinearAccelerations k1) (rigidLinearAccelerations k2)
                          (rigidLinearAccelerations k3) (rigidLinearAccelerations k4))
                    (zip4 (rigidAngularAccelerations k1) (rigidAngularAccelerations k2)
                          (rigidAngularAccelerations k3) (rigidAngularAccelerations k4)))) (\<lambda>rs.
      Inr (next\<lparr> pointMasses := ps, rigidBodies := rs \<rparr>)))))))))))"

fun pickIntegrator ::
  "IntegratorName \<Rightarrow> DynamicsContext \<Rightarrow> SimulationState \<Rightarrow> error + SimulationState" where
  "pickIntegrator Euler = integrateEuler"
| "pickIntegrator Semi = integrateSemiImplicitEuler"
| "pickIntegrator Rk4 = integrateRK4"

section \<open>Simulation engine (engine.ts)\<close>

record PhysicsEngine =
  dt :: real
  integratorName :: IntegratorName
  forces :: "ForcesConfig option"
  pointMassIndexById :: "string \<rightharpoonup> nat"
  springs :: "SpringConfig list"
  state :: SimulationState

text \<open>The constructor calls \<open>pointMassIndexById.set(pm.id, idx)\<close> for the point masses in
  order; a later entry with the same id overwrites the earlier one.\<close>

fun setIndices :: "(string \<rightharpoonup> nat) \<Rightarrow> nat \<Rightarrow> string list \<Rightarrow> (string \<rightharpoonup> nat)" where
  "setIndices m idx [] = m"
| "setIndices m idx (i # is) = setIndices (m(i \<mapsto> idx)) (Suc idx) is"

definition orEmpty :: "'a list option \<Rightarrow> 'a list" where
  "orEmpty xs = (case xs of None \<Rightarrow> [] | Some ys \<Rightarrow> ys)"

definition newPhysicsEngine :: "SimulationConfig \<Rightarrow> PhysicsEngine" where
  "newPhysicsEngine config =
     \<lparr> dt = cfg_dt config,
       integratorName = cfg_integrator config,
       forces = cfg_forces config,
       pointMassIndexById =
         setIndices Map.empty 0 (map pmc_id (orEmpty (cfg_pointMasses config))),
       springs = orEmpty (cfg_springs config),
       state =
         \<lparr> time = 0,
           stepIndex = 0,
           pointMasses =
             map (\<lambda>pm. \<lparr> pm_id = pmc_id pm, pm_mass = pmc_mass pm,
                          pm_position = pmc_position pm, pm_velocity = pmc_velocity pm \<rparr>)
                 (orEmpty (cfg_pointMasses config)),
           rigidBodies =
             map (\<lambda>rb. \<lparr> rb_id = rbc_id rb, rb_mass = rbc_mass rb, rb_size = rbc_size rb,
                          rb_position = rbc_position rb, rb_velocity = rbc_velocity rb,
                          rb_orientation = rbc_orientation rb,
                          rb_angularVelocity = rbc_angularVelocity rb \<rparr>)
                 (orEmpty (cfg_rigidBodies config)) \<rparr> \<rparr>"

text \<open>\<open>getState\<close> returns a deep copy; in a model of values the copy is the state.\<close>

definition getState :: "PhysicsEngine \<Rightarrow> SimulationState" where
  "getState e = cloneState (state e)"


text \<open>\<open>rigidBodies.find(r => r.id === objectId)\<close> yields the first match, which is then
  changed in place.\<close>

fun impulseFirstRigidBody ::
  "string \<Rightarrow> Vector3 \<Rightarrow> RigidBodyBoxState list \<Rightarrow> RigidBodyBoxState list" where
  "impulseFirstRigidBody objectId impulse [] = []"
| "impulseFirstRigidBody objectId impulse (rb # rbs) =
     (if rb_id rb = objectId
      then rb\<lparr> rb_velocity := vecAdd (rb_velocity rb) (vecScale impulse (1 / rb_mass rb)) \<rparr> # rbs
      else rb # impulseFirstRigidBody objectId impulse rbs)"

definition applyImpulse :: "PhysicsEngine \<Rightarrow> string \<Rightarrow> Vector3 \<Rightarrow> error + PhysicsEngine" where
  "applyImpulse e objectId impulse =
     (case pointMassIndexById e objectId of
        Some pmIndex \<Rightarrow>
          if pmIndex < length (pointMasses (state e)) then
            let p = pointMasses (state e) ! pmIndex;
                p' = p\<lparr> pm_velocity :=
                          vecAdd (pm_velocity p) (vecScale impulse (1 / pm_mass p)) \<rparr>
            in Inr (e\<lparr> state := (state e)\<lparr> pointMasses :=
                                               (pointMasses (state e))[pmIndex := p'] \<rparr> \<rparr>)
          else Inl TypeError
      | None \<Rightarrow>
          Inr (e\<lparr> state := (state e)\<lparr> rigidBodies :=
                   impulseFirstRigidBody objectId impulse (rigidBodies (state e)) \<rparr> \<rparr>))"

text \<open>The force a spring exerts on its anchor \<open>a\<close> (and, negated, on \<open>b\<close>): the part of
  the spring loop of \<open>computeDerivative\<close> between reading the anchors and updating the
  accelerations.\<close>

definition springForceVec :: "PointMassState \<Rightarrow> PointMassState \<Rightarrow> SpringConfig \<Rightarrow> Vector3" where
  "springForceVec a b spring =
     (let delta = vecSub (pm_position b) (pm_position a);
          distance = vecLength delta;
          direction = (if distance > 0 then vecScale delta (1 / distance) else (0, 0, 0));
          extension = distance - restLength spring;
          relativeVel = vecSub (pm_velocity b) (pm_velocity a);
          dampingAlong = (case damping spring of None \<Rightarrow> 0 | Some c \<Rightarrow> c)
                         * vecDot relativeVel direction;
          forceMagnitude = - stiffness spring * extension - dampingAlong
      in vecScale direction forceMagnitude)"

text \<open>One pass of the spring loop of \<open>computeDerivative\<close>. An anchor index beyond the
  state's point masses reads \<open>undefined\<close>, whose \<open>position\<close> throws.\<close>

definition applySpring ::
  "(string \<rightharpoonup> nat) \<Rightarrow> SimulationState \<Rightarrow> SpringConfig \<Rightarrow> Vector3 list \<Rightarrow> error + Vector3 list"
  where
  "applySpring idx st spring acc =
     (case idx (aId spring) of
        None \<Rightarrow> Inr acc
      | Some ia \<Rightarrow>
         (case idx (bId spring) of
            None \<Rightarrow> Inr acc
          | Some ib \<Rightarrow>
              if ia < length (pointMasses st) \<and> ib < length (pointMasses st) then
                let a = pointMasses st ! ia;
                    b = pointMasses st ! ib;
                    forceVec = springForceVec a b spring;
                    acc1 = acc[ia := vecAdd (acc ! ia) (vecScale forceVec (1 / pm_mass a))];
                    acc2 = acc1[ib := vecAdd (acc1 ! ib)
                                        (vecScale (vecScale forceVec (- 1)) (1 / pm_mass b))]
                in Inr acc2
              else Inl TypeError))"

fun springLoop ::
  "(string \<rightharpoonup> nat) \<Rightarrow> SimulationState \<Rightarrow> SpringConfig list \<Rightarrow> Vector3 list \<Rightarrow> error + Vector3 list"
  where
  "springLoop idx st [] acc = Inr acc"
| "springLoop idx st (spring # rest) acc =
     (case applySpring idx st spring acc of
        Inl err \<Rightarrow> Inl err
      | Inr acc' \<Rightarrow> springLoop idx st rest acc')"

definition rigidLinearAcceleration :: "ForcesConfig option \<Rightarrow> RigidBodyBoxState \<Rightarrow> Vector3" where
  "rigidLinearAcceleration fs rb =
     (let gAcc = (case Option.bind fs gravity of
                    Some gc \<Rightarrow>
                      vecScale (case direction gc of None \<Rightarrow> (0, - 1, 0) | Some d \<Rightarrow> d) (g gc)
                  | None \<Rightarrow> (0, 0, 0));
          dragAcc = (case Option.bind fs linearDrag of
                       Some dc \<Rightarrow> vecScale (rb_velocity rb) (- coefficient dc / rb_mass rb)
                     | None \<Rightarrow> (0, 0, 0))
      in vecAdd gAcc dragAcc)"

definition computeDerivative :: "PhysicsEngine \<Rightarrow> SimulationState \<Rightarrow> error + Derivative" where
  "computeDerivative e st =
     bindE (springLoop (pointMassIndexById e) st (springs e)
              (map (\<lambda>pm. sumAccelerationsForPointMass pm (forces e)) (pointMasses st)))
       (\<lambda>pointAccs.
          Inr \<lparr> pointAccelerations = pointAccs,
                rigidLinearAccelerations = map (rigidLinearAcceleration (forces e)) (rigidBodies st),
                rigidAngularAccelerations = map (\<lambda>_. (0, 0, 0)) (rigidBodies st) \<rparr>)"

text \<open>\<open>step\<close> replaces the committed state by the integrator's result; when the integrator
  throws, the assignment does not happen and the engine is as before.\<close>

definition step :: "PhysicsEngine \<Rightarrow> error + PhysicsEngine" where
  "step e =
     (let ctx = \<lparr> ctx_computeDerivative = computeDerivative e, ctx_dt = dt e \<rparr> in
      bindE (pickIntegrator (integratorName e) ctx (state e)) (\<lambda>next.
      Inr (e\<lparr> state := next \<rparr>)))"


text \<open>The class invariant: the id map is the one the constructor builds from the point
  masses, whose ids and order no method changes.\<close>

definition engine_inv :: "PhysicsEngine \<Rightarrow> bool" where
  "engine_inv e \<longleftrightarrow>
     pointMassIndexById e = setIndices Map.empty 0 (map pm_id (pointMasses (state e)))"

text \<open>The engines that can exist: the class keeps its fields private, so an engine is
  what the constructor returns or what a method call leaves behind.\<close>

inductive reachable :: "PhysicsEngine \<Rightarrow> bool" where
  constructed: "reachable (newPhysicsEngine config)"
| stepped: "reachable e \<Longrightarrow> step e = Inr e' \<Longrightarrow> reachable e'"
| impulsed: "reachable e \<Longrightarrow> applyImpulse e objectId impulse = Inr e' \<Longrightarrow> reachable e'"








text \<open>What one step of an engine that satisfies the invariant does to everything
  except positions and velocities.\<close>

definition step_frame :: "PhysicsEngine \<Rightarrow> PhysicsEngine \<Rightarrow> bool" where
  "step_frame e e' \<longleftrightarrow>
     dt e' = dt e \<and> integratorName e' = integratorName e \<and> forces e' = forces e \<and>
     pointMassIndexById e' = pointMassIndexById e \<and> springs e' = springs e \<and>
     time (state e') = time (state e) + dt e \<and>
     stepIndex (state e') = stepIndex (state e) + 1 \<and>
     map pm_id (pointMasses (state e')) = map pm_id (pointMasses (state e)) \<and>
     map pm_mass (pointMasses (state e')) = map pm_mass (pointMasses (state e)) \<and>
     map rb_id (rigidBodies (state e')) = map rb_id (rigidBodies (state e)) \<and>
     map rb_mass (rigidBodies (state e')) = map rb_mass (rigidBodies (state e)) \<and>
     map rb_size (rigidBodies (state e')) = map rb_size (rigidBodies (state e)) \<and>
     list_all (\<lambda>r. hypot4 (rb_orientation r) = 1) (rigidBodies (state e'))"

definition demoSpring :: SpringConfig where
  "demoSpring = \<lparr> spring_id = ''s'', aId = ''a'', bId = ''b'', restLength = 1,
                  stiffness = 10, damping = None \<rparr>"

text \<open>A small scene: two point masses joined by a spring, and a box whose configured
  orientation is not a unit quaternion.\<close>

definition demoConfig :: SimulationConfig where
  "demoConfig =
     \<lparr> cfg_dt = 1 / 100,
       cfg_integrator = Rk4,
       cfg_snapshotIntervalMs = None,
       cfg_forces = None,
       cfg_pointMasses = Some
         [\<lparr> pmc_id = ''a'', pmc_mass = 1, pmc_position = (0, 0, 0), pmc_velocity = (0, 0, 0),
             pmc_radius = None, pmc_color = None \<rparr>,
          \<lparr> pmc_id = ''b'', pmc_mass = 2, pmc_position = (2, 0, 0), pmc_velocity = (0, 1, 0),
             pmc_radius = None, pmc_color = None \<rparr>],
       cfg_rigidBodies = Some
         [\<lparr> rbc_id = ''box'', rbc_mass = 1, rbc_size = (1, 1, 1), rbc_position = (0, 5, 0),
             rbc_velocity = (0, 0, 0), rbc_orientation = (0, 0, 0, 2),
             rbc_angularVelocity = (0, 1, 0), rbc_color = None \<rparr>],
       cfg_springs = Some [demoSpring],
       cfg_joints = None \<rparr>"

abbreviation demoEngine :: PhysicsEngine where
  "demoEngine \<equiv> newPhysicsEngine demoConfig"

text \<open>A spring whose second anchor names no point mass of the scene.\<close>

definition ghostSpring :: SpringConfig where
  "ghostSpring = \<lparr> spring_id = ''g'', aId = ''a'', bId = ''nobody'', restLength = 1,
                   stiffness = 50, damping = Some 1 \<rparr>"


abbreviation ghostEngine :: PhysicsEngine where
  "ghostEngine \<equiv>
     newPhysicsEngine (demoConfig\<lparr> cfg_springs := Some [demoSpring, ghostSpring] \<rparr>)"


text \<open>The momentum of the point masses at two indices: the sum of mass times velocity.\<close>

definition pairMomentum :: "SimulationState \<Rightarrow> nat \<Rightarrow> nat \<Rightarrow> Vector3" where
  "pairMomentum st ia ib =
     vecAdd (vecScale (pm_velocity (pointMasses st ! ia)) (pm_mass (pointMasses st ! ia)))
            (vecScale (pm_velocity (pointMasses st ! ib)) (pm_mass (pointMasses st ! ib)))"

section \<open>Auxiliary facts\<close>

lemma bindE_Inr: "bindE (Inr x) f = f x"
  by (simp add: bindE_def)

lemma bindE_Inl: "bindE (Inl err) f = Inl err"
  by (simp add: bindE_def)

lemma pm_rebuild:
  "\<lparr> pm_id = pm_id p, pm_mass = pm_mass p, pm_position = pm_position p,
      pm_velocity = pm_velocity p \<rparr> = (p :: PointMassState)"
  by (cases p) simp

lemma rb_rebuild:
  "\<lparr> rb_id = rb_id r, rb_mass = rb_mass r, rb_size = rb_size r, rb_position = rb_position r,
      rb_velocity = rb_velocity r, rb_orientation = rb_orientation r,
      rb_angularVelocity = rb_angularVelocity r \<rparr> = (r :: RigidBodyBoxState)"
  by (cases r) simp

lemma cloneState_id: "cloneState st = st"
  by (cases st) (simp add: cloneState_def pm_rebuild rb_rebuild)

lemma forEachBody_Inr:
  "length xs \<le> length ds \<Longrightarrow> forEachBody f xs ds = Inr (map (\<lambda>(x, d). f x d) (zip xs ds))"
proof (induction f xs ds rule: forEachBody.induct)
  case (1 f ds)
  show ?case by simp
next
  case (2 f x xs)
  then show ?case by simp
next
  case (3 f x xs d ds)
  then show ?case by simp
qed

lemma setIndices_notin: "x \<notin> set ids \<Longrightarrow> setIndices m k ids x = m x"
  by (induction ids arbitrary: m k) auto

lemma setIndices_Some:
  "x \<in> set ids \<Longrightarrow> \<exists>i. setIndices m k ids x = Some (k + i) \<and> i < length ids \<and> ids ! i = x
      \<and> (\<forall>j. i < j \<and> j < length ids \<longrightarrow> ids ! j \<noteq> x)"
proof (induction ids arbitrary: m k)
  case Nil
  then show ?case by simp
next
  case (Cons a ids)
  show ?case
  proof (cases "x \<in> set ids")
    case True
    from Cons.IH[OF True, of "m(a \<mapsto> k)" "Suc k"]
    obtain i where i: "setIndices (m(a \<mapsto> k)) (Suc k) ids x = Some (Suc k + i)"
      "i < length ids" "ids ! i = x" "\<forall>j. i < j \<and> j < length ids \<longrightarrow> ids ! j \<noteq> x"
      by blast
    have "\<forall>j. Suc i < j \<and> j < length (a # ids) \<longrightarrow> (a # ids) ! j \<noteq> x"
    proof (intro allI impI)
      fix j assume j: "Suc i < j \<and> j < length (a # ids)"
      then obtain j' where j': "j = Suc j'" by (cases j) auto
      with j i(4) show "(a # ids) ! j \<noteq> x" by simp
    qed
    with i show ?thesis
      by (intro exI[of _ "Suc i"]) simp
  next
    case False
    with Cons.prems have ax: "a = x" by simp
    have "setIndices (m(a \<mapsto> k)) (Suc k) ids x = Some k"
      using False ax by (simp add: setIndices_notin)
    moreover have "\<forall>j. 0 < j \<and> j < length (a # ids) \<longrightarrow> (a # ids) ! j \<noteq> x"
    proof (intro allI impI)
      fix j assume j: "0 < j \<and> j < length (a # ids)"
      then obtain j' where j': "j = Suc j'" by (cases j) auto
      with j False show "(a # ids) ! j \<noteq> x" by (auto simp: in_set_conv_nth)
    qed
    ultimately show ?thesis using ax
      by (intro exI[of _ 0]) simp
  qed
qed

lemma setIndices_range:
  "setIndices Map.empty 0 ids x = Some i \<Longrightarrow> i < length ids \<and> ids ! i = x"
proof (cases "x \<in> set ids")
  case True
  assume "setIndices Map.empty 0 ids x = Some i"
  with setIndices_Some[OF True, of Map.empty 0] show ?thesis by auto
next
  case False
  assume "setIndices Map.empty 0 ids x = Some i"
  with False show ?thesis by (simp add: setIndices_notin)
qed

lemma setIndices_last:
  assumes "i < length ids" and "\<forall>j. i < j \<and> j < length ids \<longrightarrow> ids ! j \<noteq> ids ! i"
  shows "setIndices Map.empty 0 ids (ids ! i) = Some i"
proof -
  have mem: "ids ! i \<in> set ids" using assms(1) by simp
  from setIndices_Some[OF mem, of Map.empty 0]
  obtain i' where i': "setIndices Map.empty 0 ids (ids ! i) = Some i'" "i' < length ids"
    "ids ! i' = ids ! i" "\<forall>j. i' < j \<and> j < length ids \<longrightarrow> ids ! j \<noteq> ids ! i"
    by auto
  have "\<not> i < i'" using assms(2) i'(2,3) by blast
  moreover have "\<not> i' < i" using i'(4) assms(1) by blast
  ultimately have "i' = i" by simp
  with i'(1) show ?thesis by simp
qed

lemma zip_frame:
  "length xs \<le> length ds \<Longrightarrow> (\<And>x d. sel (f x d) = sel x) \<Longrightarrow>
   map sel (map (\<lambda>(x, d). f x d) (zip xs ds)) = map sel xs"
proof (induction xs arbitrary: ds)
  case Nil
  show ?case by simp
next
  case (Cons x xs)
  then obtain d ds' where ds: "ds = d # ds'" by (cases ds) auto
  with Cons show ?case by simp
qed

lemma zip_nth:
  "i < length xs \<Longrightarrow> length xs \<le> length ds \<Longrightarrow>
   map (\<lambda>(x, d). f x d) (zip xs ds) ! i = f (xs ! i) (ds ! i)"
  by simp

lemma applySpring_ok:
  assumes "\<forall>k i. idx k = Some i \<longrightarrow> i < length (pointMasses st)"
  shows "\<exists>acc'. applySpring idx st s acc = Inr acc' \<and> length acc' = length acc"
proof (cases "idx (aId s)")
  case None
  then show ?thesis by (simp add: applySpring_def)
next
  case (Some ia)
  note a = this
  show ?thesis
  proof (cases "idx (bId s)")
    case None
    with a show ?thesis by (simp add: applySpring_def)
  next
    case (Some ib)
    from assms a Some have "ia < length (pointMasses st)" "ib < length (pointMasses st)"
      by blast+
    with a Some show ?thesis by (simp add: applySpring_def Let_def)
  qed
qed

lemma springLoop_ok:
  assumes "\<forall>k i. idx k = Some i \<longrightarrow> i < length (pointMasses st)"
  shows "\<exists>acc'. springLoop idx st ss acc = Inr acc' \<and> length acc' = length acc"
proof (induction ss arbitrary: acc)
  case Nil
  show ?case by simp
next
  case (Cons s ss)
  from applySpring_ok[OF assms, of s acc]
  obtain acc1 where a1: "applySpring idx st s acc = Inr acc1" "length acc1 = length acc"
    by blast
  from Cons.IH[of acc1] a1 show ?case by simp
qed

lemma computeDerivative_ok:
  assumes "\<forall>k i. pointMassIndexById e k = Some i \<longrightarrow> i < length (pointMasses st)"
  shows "\<exists>d. computeDerivative e st = Inr d
           \<and> length (pointAccelerations d) = length (pointMasses st)
           \<and> length (rigidLinearAccelerations d) = length (rigidBodies st)
           \<and> length (rigidAngularAccelerations d) = length (rigidBodies st)"
proof -
  from springLoop_ok[OF assms, of "springs e"
      "map (\<lambda>pm. sumAccelerationsForPointMass pm (forces e)) (pointMasses st)"]
  obtain acc where "springLoop (pointMassIndexById e) st (springs e)
      (map (\<lambda>pm. sumAccelerationsForPointMass pm (forces e)) (pointMasses st)) = Inr acc"
    "length acc = length (pointMasses st)" by auto
  then show ?thesis by (simp add: computeDerivative_def bindE_Inr)
qed

lemma engine_inv_range:
  "engine_inv e \<Longrightarrow> pointMassIndexById e k = Some i \<Longrightarrow>
   i < length (pointMasses (state e)) \<and> pm_id (pointMasses (state e) ! i) = k"
  using setIndices_range[of "map pm_id (pointMasses (state e))" k i]
  by (auto simp: engine_inv_def)

lemma integrateEuler_Inr:
  assumes "ctx_computeDerivative ctx cur = Inr d"
    and "length (pointMasses cur) \<le> length (pointAccelerations d)"
    and "length (rigidBodies cur) \<le> length (rigidLinearAccelerations d)"
    and "length (rigidBodies cur) \<le> length (rigidAngularAccelerations d)"
  shows "integrateEuler ctx cur =
         Inr \<lparr> time = time cur + ctx_dt ctx, stepIndex = stepIndex cur + 1,
               pointMasses = map (\<lambda>(p, a). eulerPointMass (ctx_dt ctx) p a)
                               (zip (pointMasses cur) (pointAccelerations d)),
               rigidBodies = map (\<lambda>(r, a). eulerRigidBody (ctx_dt ctx) r a)
                               (zip (rigidBodies cur)
                                  (zip (rigidLinearAccelerations d)
                                       (rigidAngularAccelerations d))) \<rparr>"
  using assms
  by (simp add: integrateEuler_def bindE_Inr cloneState_id Let_def forEachBody_Inr)

lemma integrateSemiImplicitEuler_Inr:
  assumes "ctx_computeDerivative ctx cur = Inr d"
    and "length (pointMasses cur) \<le> length (pointAccelerations d)"
    and "length (rigidBodies cur) \<le> length (rigidLinearAccelerations d)"
    and "length (rigidBodies cur) \<le> length (rigidAngularAccelerations d)"
  shows "integrateSemiImplicitEuler ctx cur =
         Inr \<lparr> time = time cur + ctx_dt ctx, stepIndex = stepIndex cur + 1,
               pointMasses = map (\<lambda>(p, a). semiPointMass (ctx_dt ctx) p a)
                               (zip (pointMasses cur) (pointAccelerations d)),
               rigidBodies = map (\<lambda>(r, a). semiRigidBody (ctx_dt ctx) r a)
                               (zip (rigidBodies cur)
                                  (zip (rigidLinearAccelerations d)
                                       (rigidAngularAccelerations d))) \<rparr>"
  using assms
  by (simp add: integrateSemiImplicitEuler_def bindE_Inr cloneState_id Let_def forEachBody_Inr)

lemma rk4Stage_Inr:
  assumes "length (pointMasses cur) \<le> length (pointAccelerations k)"
    and "length (rigidBodies cur) \<le> length (rigidLinearAccelerations k)"
    and "length (rigidBodies cur) \<le> length (rigidAngularAccelerations k)"
  shows "rk4Stage cur k h =
         Inr \<lparr> time = time cur, stepIndex = stepIndex cur,
               pointMasses = map (\<lambda>(p, a). eulerPointMass h p a)
                               (zip (pointMasses cur) (pointAccelerations k)),
               rigidBodies = map (\<lambda>(r, a). eulerRigidBody h r a)
                               (zip (rigidBodies cur)
                                  (zip (rigidLinearAccelerations k)
                                       (rigidAngularAccelerations k))) \<rparr>"
  using assms
  by (simp add: rk4Stage_def bindE_Inr cloneState_id Let_def forEachBody_Inr)

lemma rk4Stage_lengths:
  assumes "rk4Stage cur k h = Inr s"
    and "length (pointMasses cur) \<le> length (pointAccelerations k)"
    and "length (rigidBodies cur) \<le> length (rigidLinearAccelerations k)"
    and "length (rigidBodies cur) \<le> length (rigidAngularAccelerations k)"
  shows "length (pointMasses s) = length (pointMasses cur)
       \<and> length (rigidBodies s) = length (rigidBodies cur)"
  using assms(1) rk4Stage_Inr[OF assms(2,3,4), of h] assms(2,3,4) by auto

lemma length_zip4:
  "length (zip4 as bs cs ds) = min (length as) (min (length bs) (min (length cs) (length ds)))"
  by (simp add: zip4_def)

lemma zip4_nth:
  "i < length as \<Longrightarrow> i < length bs \<Longrightarrow> i < length cs \<Longrightarrow> i < length ds \<Longrightarrow>
   zip4 as bs cs ds ! i = (as ! i, bs ! i, cs ! i, ds ! i)"
  by (simp add: zip4_def)

lemma integrateRK4_Inr:
  assumes k1: "ctx_computeDerivative ctx cur = Inr k1"
    and s2: "rk4Stage cur k1 (ctx_dt ctx * 0.5) = Inr s2"
    and k2: "ctx_computeDerivative ctx s2 = Inr k2"
    and s3: "rk4Stage cur k2 (ctx_dt ctx * 0.5) = Inr s3"
    and k3: "ctx_computeDerivative ctx s3 = Inr k3"
    and s4: "rk4Stage cur k3 (ctx_dt ctx) = Inr s4"
    and k4: "ctx_computeDerivative ctx s4 = Inr k4"
    and lp: "length (pointMasses cur) \<le> length (pointAccelerations k1)"
            "length (pointMasses cur) \<le> length (pointAccelerations k2)"
            "length (pointMasses cur) \<le> length (pointAccelerations k3)"
            "length (pointMasses cur) \<le> length (pointAccelerations k4)"
    and ll: "length (rigidBodies cur) \<le> length (rigidLinearAccelerations k1)"
            "length (rigidBodies cur) \<le> length (rigidLinearAccelerations k2)"
            "length (rigidBodies cur) \<le> length (rigidLinearAccelerations k3)"
            "length (rigidBodies cur) \<le> length (rigidLinearAccelerations k4)"
    and la: "length (rigidBodies cur) \<le> length (rigidAngularAccelerations k1)"
            "length (rigidBodies cur) \<le> length (rigidAngularAccelerations k2)"
            "length (rigidBodies cur) \<le> length (rigidAngularAccelerations k3)"
            "length (rigidBodies cur) \<le> length (rigidAngularAccelerations k4)"
  shows "integrateRK4 ctx cur =
         Inr \<lparr> time = time cur + ctx_dt ctx, stepIndex = stepIndex cur + 1,
               pointMasses = map (\<lambda>(p, ks). rk4PointMass (ctx_dt ctx) p ks)
                 (zip (pointMasses cur)
                    (zip4 (pointAccelerations k1) (pointAccelerations k2)
                          (pointAccelerations k3) (pointAccelerations k4))),
               rigidBodies = map (\<lambda>(r, ks). rk4RigidBody (ctx_dt ctx) r ks)
                 (zip (rigidBodies cur)
                    (zip (zip4 (rigidLinearAccelerations k1) (rigidLinearAccelerations k2)
                               (rigidLinearAccelerations k3) (rigidLinearAccelerations k4))
                         (zip4 (rigidAngularAccelerations k1) (rigidAngularAccelerations k2)
                               (rigidAngularAccelerations k3) (rigidAngularAccelerations k4)))) \<rparr>"
proof -
  have p: "length (pointMasses cur) \<le> length (zip4 (pointAccelerations k1)
             (pointAccelerations k2) (pointAccelerations k3) (pointAccelerations k4))"
    using lp by (simp add: length_zip4)
  have r: "length (rigidBodies cur) \<le> length
            (zip (zip4 (rigidLinearAccelerations k1) (rigidLinearAccelerations k2)
                       (rigidLinearAccelerations k3) (rigidLinearAccelerations k4))
                 (zip4 (rigidAngularAccelerations k1) (rigidAngularAccelerations k2)
                       (rigidAngularAccelerations k3) (rigidAngularAccelerations k4)))"
    using ll la by (simp add: length_zip4)
  show ?thesis
    using k1 s2 k2 s3 k3 s4 k4
    by (simp add: integrateRK4_def Let_def bindE_Inr cloneState_id forEachBody_Inr[OF p]
          forEachBody_Inr[OF r])
qed

text \<open>The four derivative evaluations of an engine whose index stays in range.\<close>

lemma rk4_chain:
  assumes rng: "\<forall>k i. pointMassIndexById e k = Some i \<longrightarrow> i < length (pointMasses cur)"
  shows "\<exists>k1 s2 k2 s3 k3 s4 k4.
      computeDerivative e cur = Inr k1 \<and> rk4Stage cur k1 (h * 0.5) = Inr s2 \<and>
      computeDerivative e s2 = Inr k2 \<and> rk4Stage cur k2 (h * 0.5) = Inr s3 \<and>
      computeDerivative e s3 = Inr k3 \<and> rk4Stage cur k3 h = Inr s4 \<and>
      computeDerivative e s4 = Inr k4 \<and>
      length (pointAccelerations k1) = length (pointMasses cur) \<and>
      length (pointAccelerations k2) = length (pointMasses cur) \<and>
      length (pointAccelerations k3) = length (pointMasses cur) \<and>
      length (pointAccelerations k4) = length (pointMasses cur) \<and>
      length (rigidLinearAccelerations k1) = length (rigidBodies cur) \<and>
      length (rigidLinearAccelerations k2) = length (rigidBodies cur) \<and>
      length (rigidLinearAccelerations k3) = length (rigidBodies cur) \<and>
      length (rigidLinearAccelerations k4) = length (rigidBodies cur) \<and>
      length (rigidAngularAccelerations k1) = length (rigidBodies cur) \<and>
      length (rigidAngularAccelerations k2) = length (rigidBodies cur) \<and>
      length (rigidAngularAccelerations k3) = length (rigidBodies cur) \<and>
      length (rigidAngularAccelerations k4) = length (rigidBodies cur)"
proof -
  have stage: "\<exists>s. rk4Stage cur k w = Inr s \<and> length (pointMasses s) = length (pointMasses cur)
                 \<and> length (rigidBodies s) = length (rigidBodies cur)"
    if "length (pointAccelerations k) = length (pointMasses cur)"
       "length (rigidLinearAccelerations k) = length (rigidBodies cur)"
       "length (rigidAngularAccelerations k) = length (rigidBodies cur)" for k w
    using that by (simp add: rk4Stage_Inr)
  have deriv: "\<exists>d. computeDerivative e s = Inr d
           \<and> length (pointAccelerations d) = length (pointMasses cur)
           \<and> length (rigidLinearAccelerations d) = length (rigidBodies cur)
           \<and> length (rigidAngularAccelerations d) = length (rigidBodies cur)"
    if "length (pointMasses s) = length (pointMasses cur)"
       "length (rigidBodies s) = length (rigidBodies cur)" for s
    using computeDerivative_ok[of e s] rng that by simp
  from deriv[of cur] obtain k1 where k1: "computeDerivative e cur = Inr k1"
    "length (pointAccelerations k1) = length (pointMasses cur)"
    "length (rigidLinearAccelerations k1) = length (rigidBodies cur)"
    "length (rigidAngularAccelerations k1) = length (rigidBodies cur)" by auto
  from stage[OF k1(2,3,4), of "h * 0.5"] obtain s2 where s2: "rk4Stage cur k1 (h * 0.5) = Inr s2"
    "length (pointMasses s2) = length (pointMasses cur)"
    "length (rigidBodies s2) = length (rigidBodies cur)" by auto
  from deriv[OF s2(2,3)] obtain k2 where k2: "computeDerivative e s2 = Inr k2"
    "length (pointAccelerations k2) = length (pointMasses cur)"
    "length (rigidLinearAccelerations k2) = length (rigidBodies cur)"
    "length (rigidAngularAccelerations k2) = length (rigidBodies cur)" by auto
  from stage[OF k2(2,3,4), of "h * 0.5"] obtain s3 where s3: "rk4Stage cur k2 (h * 0.5) = Inr s3"
    "length (pointMasses s3) = length (pointMasses cur)"
    "length (rigidBodies s3) = length (rigidBodies cur)" by auto
  from deriv[OF s3(2,3)] obtain k3 where k3: "computeDerivative e s3 = Inr k3"
    "length (pointAccelerations k3) = length (pointMasses cur)"
    "length (rigidLinearAccelerations k3) = length (rigidBodies cur)"
    "length (rigidAngularAccelerations k3) = length (rigidBodies cur)" by auto
  from stage[OF k3(2,3,4), of h] obtain s4 where s4: "rk4Stage cur k3 h = Inr s4"
    "length (pointMasses s4) = length (pointMasses cur)"
    "length (rigidBodies s4) = length (rigidBodies cur)" by auto
  from deriv[OF s4(2,3)] obtain k4 where k4: "computeDerivative e s4 = Inr k4"
    "length (pointAccelerations k4) = length (pointMasses cur)"
    "length (rigidLinearAccelerations k4) = length (rigidBodies cur)"
    "length (rigidAngularAccelerations k4) = length (rigidBodies cur)" by auto
  from k1 s2(1) k2 s3(1) k3 s4(1) k4 show ?thesis by blast
qed

lemma hypot4_quatNormalize: "hypot4 (quatNormalize q) = 1"
proof -
  obtain q0 q1 q2 q3 where q: "q = (q0, q1, q2, q3)" by (cases q) auto
  define s where "s = q0 * q0 + q1 * q1 + q2 * q2 + q3 * q3"
  have s0: "0 \<le> s" by (simp add: s_def)
  show ?thesis
  proof (cases "sqrt s = 0")
    case True
    then show ?thesis by (simp add: quatNormalize_def q s_def)
  next
    case False
    then have sne: "s \<noteq> 0" by auto
    have sq: "sqrt s * sqrt s = s" using s0 by simp
    have "q0 / sqrt s * (q0 / sqrt s) + q1 / sqrt s * (q1 / sqrt s)
          + q2 / sqrt s * (q2 / sqrt s) + q3 / sqrt s * (q3 / sqrt s)
          = q0 * q0 / s + q1 * q1 / s + q2 * q2 / s + q3 * q3 / s"
      using s0 by simp
    also have "\<dots> = (q0 * q0 + q1 * q1 + q2 * q2 + q3 * q3) / s"
      by (simp add: add_divide_distrib)
    also have "\<dots> = s / s" by (simp only: s_def)
    also have "\<dots> = 1" using sne by simp
    finally have "sqrt (q0 / sqrt s * (q0 / sqrt s) + q1 / sqrt s * (q1 / sqrt s)
          + q2 / sqrt s * (q2 / sqrt s) + q3 / sqrt s * (q3 / sqrt s)) = 1"
      by simp
    with False show ?thesis
      by (simp add: quatNormalize_def q s_def[symmetric] Let_def)
  qed
qed

lemma hypot4_advanceOrientation: "hypot4 (advanceOrientation q w h) = 1"
proof -
  obtain q0 q1 q2 q3 where q: "q = (q0, q1, q2, q3)" by (cases q) auto
  obtain w0 w1 w2 where w: "w = (w0, w1, w2)" by (cases w) auto
  show ?thesis
    by (simp add: advanceOrientation_def q w Let_def hypot4_quatNormalize)
qed

lemma eulerPointMass_frame:
  "pm_id (eulerPointMass h p a) = pm_id p" "pm_mass (eulerPointMass h p a) = pm_mass p"
  by (simp_all add: eulerPointMass_def)

lemma semiPointMass_frame:
  "pm_id (semiPointMass h p a) = pm_id p" "pm_mass (semiPointMass h p a) = pm_mass p"
  by (simp_all add: semiPointMass_def Let_def)

lemma rk4PointMass_frame:
  "pm_id (rk4PointMass h p ks) = pm_id p" "pm_mass (rk4PointMass h p ks) = pm_mass p"
  by (simp_all add: rk4PointMass_def Let_def split: prod.splits)

lemma eulerRigidBody_frame:
  "rb_id (eulerRigidBody h r acc) = rb_id r" "rb_mass (eulerRigidBody h r acc) = rb_mass r"
  "rb_size (eulerRigidBody h r acc) = rb_size r"
  "hypot4 (rb_orientation (eulerRigidBody h r acc)) = 1"
  by (simp_all add: eulerRigidBody_def Let_def hypot4_advanceOrientation split: prod.splits)

lemma semiRigidBody_frame:
  "rb_id (semiRigidBody h r acc) = rb_id r" "rb_mass (semiRigidBody h r acc) = rb_mass r"
  "rb_size (semiRigidBody h r acc) = rb_size r"
  "hypot4 (rb_orientation (semiRigidBody h r acc)) = 1"
  by (simp_all add: semiRigidBody_def Let_def hypot4_advanceOrientation split: prod.splits)

lemma rk4RigidBody_frame:
  "rb_id (rk4RigidBody h r ks) = rb_id r" "rb_mass (rk4RigidBody h r ks) = rb_mass r"
  "rb_size (rk4RigidBody h r ks) = rb_size r"
  "hypot4 (rb_orientation (rk4RigidBody h r ks)) = 1"
  by (simp_all add: rk4RigidBody_def Let_def hypot4_advanceOrientation split: prod.splits)

lemma zip_all:
  "(\<And>x d. P (f x d)) \<Longrightarrow> \<forall>y \<in> set (map (\<lambda>(x, d). f x d) (zip xs ds)). P y"
  by auto

lemma frame_of_maps:
  assumes lp: "length (pointMasses (state e)) \<le> length ds"
    and lr: "length (rigidBodies (state e)) \<le> length ds'"
    and F: "\<And>p a. pm_id (F p a) = pm_id p" "\<And>p a. pm_mass (F p a) = pm_mass p"
    and G: "\<And>r a. rb_id (G r a) = rb_id r" "\<And>r a. rb_mass (G r a) = rb_mass r"
           "\<And>r a. rb_size (G r a) = rb_size r"
           "\<And>r a. hypot4 (rb_orientation (G r a)) = 1"
  shows "step_frame e (e\<lparr> state := \<lparr> time = time (state e) + dt e,
            stepIndex = stepIndex (state e) + 1,
            pointMasses = map (\<lambda>(p, a). F p a) (zip (pointMasses (state e)) ds),
            rigidBodies = map (\<lambda>(r, a). G r a) (zip (rigidBodies (state e)) ds') \<rparr> \<rparr>)"
  unfolding step_frame_def
  by (simp add: zip_frame[OF lp] zip_frame[OF lr] F G list_all_iff del: map_map
      split: prod.splits)

lemma step_euler_eq:
  assumes inv: "engine_inv e" and nm: "integratorName e = Euler"
  shows "\<exists>d. computeDerivative e (state e) = Inr d
     \<and> length (pointAccelerations d) = length (pointMasses (state e))
     \<and> length (rigidLinearAccelerations d) = length (rigidBodies (state e))
     \<and> length (rigidAngularAccelerations d) = length (rigidBodies (state e))
     \<and> step e = Inr (e\<lparr> state := \<lparr> time = time (state e) + dt e,
            stepIndex = stepIndex (state e) + 1,
            pointMasses = map (\<lambda>(p, a). eulerPointMass (dt e) p a)
                            (zip (pointMasses (state e)) (pointAccelerations d)),
            rigidBodies = map (\<lambda>(r, a). eulerRigidBody (dt e) r a)
                            (zip (rigidBodies (state e))
                               (zip (rigidLinearAccelerations d)
                                    (rigidAngularAccelerations d))) \<rparr> \<rparr>)"
proof -
  have rng: "\<forall>k i. pointMassIndexById e k = Some i \<longrightarrow> i < length (pointMasses (state e))"
    using engine_inv_range[OF inv] by blast
  from computeDerivative_ok[OF rng] obtain d where d: "computeDerivative e (state e) = Inr d"
    "length (pointAccelerations d) = length (pointMasses (state e))"
    "length (rigidLinearAccelerations d) = length (rigidBodies (state e))"
    "length (rigidAngularAccelerations d) = length (rigidBodies (state e))" by blast
  let ?ctx = "\<lparr> ctx_computeDerivative = computeDerivative e, ctx_dt = dt e \<rparr>"
  have "ctx_computeDerivative ?ctx (state e) = Inr d" using d(1) by simp
  from integrateEuler_Inr[OF this] d(2,3,4)
  have eq: "integrateEuler ?ctx (state e) =
      Inr \<lparr> time = time (state e) + dt e, stepIndex = stepIndex (state e) + 1,
            pointMasses = map (\<lambda>(p, a). eulerPointMass (dt e) p a)
                            (zip (pointMasses (state e)) (pointAccelerations d)),
            rigidBodies = map (\<lambda>(r, a). eulerRigidBody (dt e) r a)
                            (zip (rigidBodies (state e))
                               (zip (rigidLinearAccelerations d)
                                    (rigidAngularAccelerations d))) \<rparr>"
    by simp
  have "step e = Inr (e\<lparr> state := \<lparr> time = time (state e) + dt e,
            stepIndex = stepIndex (state e) + 1,
            pointMasses = map (\<lambda>(p, a). eulerPointMass (dt e) p a)
                            (zip (pointMasses (state e)) (pointAccelerations d)),
            rigidBodies = map (\<lambda>(r, a). eulerRigidBody (dt e) r a)
                            (zip (rigidBodies (state e))
                               (zip (rigidLinearAccelerations d)
                                    (rigidAngularAccelerations d))) \<rparr> \<rparr>)"
    unfolding step_def Let_def nm pickIntegrator.simps eq bindE_Inr by simp
  with d show ?thesis by blast
qed

lemma step_semi_eq:
  assumes inv: "engine_inv e" and nm: "integratorName e = Semi"
  shows "\<exists>d. computeDerivative e (state e) = Inr d
     \<and> length (pointAccelerations d) = length (pointMasses (state e))
     \<and> length (rigidLinearAccelerations d) = length (rigidBodies (state e))
     \<and> length (rigidAngularAccelerations d) = length (rigidBodies (state e))
     \<and> step e = Inr (e\<lparr> state := \<lparr> time = time (state e) + dt e,
            stepIndex = stepIndex (state e) + 1,
            pointMasses = map (\<lambda>(p, a). semiPointMass (dt e) p a)
                            (zip (pointMasses (state e)) (pointAccelerations d)),
            rigidBodies = map (\<lambda>(r, a). semiRigidBody (dt e) r a)
                            (zip (rigidBodies (state e))
                               (zip (rigidLinearAccelerations d)
                                    (rigidAngularAccelerations d))) \<rparr> \<rparr>)"
proof -
  have rng: "\<forall>k i. pointMassIndexById e k = Some i \<longrightarrow> i < length (pointMasses (state e))"
    using engine_inv_range[OF inv] by blast
  from computeDerivative_ok[OF rng] obtain d where d: "computeDerivative e (state e) = Inr d"
    "length (pointAccelerations d) = length (pointMasses (state e))"
    "length (rigidLinearAccelerations d) = length (rigidBodies (state e))"
    "length (rigidAngularAccelerations d) = length (rigidBodies (state e))" by blast
  let ?ctx = "\<lparr> ctx_computeDerivative = computeDerivative e, ctx_dt = dt e \<rparr>"
  have "ctx_computeDerivative ?ctx (state e) = Inr d" using d(1) by simp
  from integrateSemiImplicitEuler_Inr[OF this] d(2,3,4)
  have eq: "integrateSemiImplicitEuler ?ctx (state e) =
      Inr \<lparr> time = time (state e) + dt e, stepIndex = stepIndex (state e) + 1,
            pointMasses = map (\<lambda>(p, a). semiPointMass (dt e) p a)
                            (zip (pointMasses (state e)) (pointAccelerations d)),
            rigidBodies = map (\<lambda>(r, a). semiRigidBody (dt e) r a)
                            (zip (rigidBodies (state e))
                               (zip (rigidLinearAccelerations d)
                                    (rigidAngularAccelerations d))) \<rparr>"
    by simp
  have "step e = Inr (e\<lparr> state := \<lparr> time = time (state e) + dt e,
            stepIndex = stepIndex (state e) + 1,
            pointMasses = map (\<lambda>(p, a). semiPointMass (dt e) p a)
                            (zip (pointMasses (state e)) (pointAccelerations d)),
            rigidBodies = map (\<lambda>(r, a). semiRigidBody (dt e) r a)
                            (zip (rigidBodies (state e))
                               (zip (rigidLinearAccelerations d)
                                    (rigidAngularAccelerations d))) \<rparr> \<rparr>)"
    unfolding step_def Let_def nm pickIntegrator.simps eq bindE_Inr by simp
  with d show ?thesis by blast
qed

lemma step_rk4_eq:
  assumes inv: "engine_inv e" and nm: "integratorName e = Rk4"
  shows "\<exists>k1 s2 k2 s3 k3 s4 k4.
      computeDerivative e (state e) = Inr k1 \<and> rk4Stage (state e) k1 (dt e * 0.5) = Inr s2 \<and>
      computeDerivative e s2 = Inr k2 \<and> rk4Stage (state e) k2 (dt e * 0.5) = Inr s3 \<and>
      computeDerivative e s3 = Inr k3 \<and> rk4Stage (state e) k3 (dt e) = Inr s4 \<and>
      computeDerivative e s4 = Inr k4 \<and>
      length (pointAccelerations k1) = length (pointMasses (state e)) \<and>
      length (pointAccelerations k2) = length (pointMasses (state e)) \<and>
      length (pointAccelerations k3) = length (pointMasses (state e)) \<and>
      length (pointAccelerations k4) = length (pointMasses (state e)) \<and>
      length (rigidLinearAccelerations k1) = length (rigidBodies (state e)) \<and>
      length (rigidLinearAccelerations k2) = length (rigidBodies (state e)) \<and>
      length (rigidLinearAccelerations k3) = length (rigidBodies (state e)) \<and>
      length (rigidLinearAccelerations k4) = length (rigidBodies (state e)) \<and>
      length (rigidAngularAccelerations k1) = length (rigidBodies (state e)) \<and>
      length (rigidAngularAccelerations k2) = length (rigidBodies (state e)) \<and>
      length (rigidAngularAccelerations k3) = length (rigidBodies (state e)) \<and>
      length (rigidAngularAccelerations k4) = length (rigidBodies (state e)) \<and>
      step e = Inr (e\<lparr> state := \<lparr> time = time (state e) + dt e,
            stepIndex = stepIndex (state e) + 1,
            pointMasses = map (\<lambda>(p, ks). rk4PointMass (dt e) p ks)
              (zip (pointMasses (state e))
                 (zip4 (pointAccelerations k1) (pointAccelerations k2)
                       (pointAccelerations k3) (pointAccelerations k4))),
            rigidBodies = map (\<lambda>(r, ks). rk4RigidBody (dt e) r ks)
              (zip (rigidBodies (state e))
                 (zip (zip4 (rigidLinearAccelerations k1) (rigidLinearAccelerations k2)
                            (rigidLinearAccelerations k3) (rigidLinearAccelerations k4))
                      (zip4 (rigidAngularAccelerations k1) (rigidAngularAccelerations k2)
                            (rigidAngularAccelerations k3) (rigidAngularAccelerations k4)))) \<rparr> \<rparr>)"
proof -
  have rng: "\<forall>k i. pointMassIndexById e k = Some i \<longrightarrow> i < length (pointMasses (state e))"
    using engine_inv_range[OF inv] by blast
  from rk4_chain[OF rng, of "dt e"] obtain k1 s2 k2 s3 k3 s4 k4 where
    c: "computeDerivative e (state e) = Inr k1" "rk4Stage (state e) k1 (dt e * 0.5) = Inr s2"
      "computeDerivative e s2 = Inr k2" "rk4Stage (state e) k2 (dt e * 0.5) = Inr s3"
      "computeDerivative e s3 = Inr k3" "rk4Stage (state e) k3 (dt e) = Inr s4"
      "computeDerivative e s4 = Inr k4"
    and lp: "length (pointAccelerations k1) = length (pointMasses (state e))"
      "length (pointAccelerations k2) = length (pointMasses (state e))"
      "length (pointAccelerations k3) = length (pointMasses (state e))"
      "length (pointAccelerations k4) = length (pointMasses (state e))"
    and ll: "length (rigidLinearAccelerations k1) = length (rigidBodies (state e))"
      "length (rigidLinearAccelerations k2) = length (rigidBodies (state e))"
      "length (rigidLinearAccelerations k3) = length (rigidBodies (state e))"
      "length (rigidLinearAccelerations k4) = length (rigidBodies (state e))"
    and la: "length (rigidAngularAccelerations k1) = length (rigidBodies (state e))"
      "length (rigidAngularAccelerations k2) = length (rigidBodies (state e))"
      "length (rigidAngularAccelerations k3) = length (rigidBodies (state e))"
      "length (rigidAngularAccelerations k4) = length (rigidBodies (state e))"
    by blast
  let ?ctx = "\<lparr> ctx_computeDerivative = computeDerivative e, ctx_dt = dt e \<rparr>"
  have eq: "integrateRK4 ?ctx (state e) =
      Inr \<lparr> time = time (state e) + dt e, stepIndex = stepIndex (state e) + 1,
            pointMasses = map (\<lambda>(p, ks). rk4PointMass (dt e) p ks)
              (zip (pointMasses (state e))
                 (zip4 (pointAccelerations k1) (pointAccelerations k2)
                       (pointAccelerations k3) (pointAccelerations k4))),
            rigidBodies = map (\<lambda>(r, ks). rk4RigidBody (dt e) r ks)
              (zip (rigidBodies (state e))
                 (zip (zip4 (rigidLinearAccelerations k1) (rigidLinearAccelerations k2)
                            (rigidLinearAccelerations k3) (rigidLinearAccelerations k4))
                      (zip4 (rigidAngularAccelerations k1) (rigidAngularAccelerations k2)
                            (rigidAngularAccelerations k3) (rigidAngularAccelerations k4)))) \<rparr>"
    using integrateRK4_Inr[of ?ctx "state e" k1 s2 k2 s3 k3 s4 k4] c lp ll la by simp
  have "step e = Inr (e\<lparr> state := \<lparr> time = time (state e) + dt e,
            stepIndex = stepIndex (state e) + 1,
            pointMasses = map (\<lambda>(p, ks). rk4PointMass (dt e) p ks)
              (zip (pointMasses (state e))
                 (zip4 (pointAccelerations k1) (pointAccelerations k2)
                       (pointAccelerations k3) (pointAccelerations k4))),
            rigidBodies = map (\<lambda>(r, ks). rk4RigidBody (dt e) r ks)
              (zip (rigidBodies (state e))
                 (zip (zip4 (rigidLinearAccelerations k1) (rigidLinearAccelerations k2)
                            (rigidLinearAccelerations k3) (rigidLinearAccelerations k4))
                      (zip4 (rigidAngularAccelerations k1) (rigidAngularAccelerations k2)
                            (rigidAngularAccelerations k3) (rigidAngularAccelerations k4)))) \<rparr> \<rparr>)"
    unfolding step_def Let_def nm pickIntegrator.simps eq bindE_Inr by simp
  with c lp ll la show ?thesis by blast
qed

lemma step_ok_frame:
  assumes inv: "engine_inv e"
  shows "\<exists>e'. step e = Inr e' \<and> step_frame e e'"
proof (cases "integratorName e")
  case Euler
  from step_euler_eq[OF inv Euler] obtain d :: Derivative where
    d: "length (pointAccelerations d) = length (pointMasses (state e))"
       "length (rigidLinearAccelerations d) = length (rigidBodies (state e))"
       "length (rigidAngularAccelerations d) = length (rigidBodies (state e))"
    and st: "step e = Inr (e\<lparr> state := \<lparr> time = time (state e) + dt e,
            stepIndex = stepIndex (state e) + 1,
            pointMasses = map (\<lambda>(p, a). eulerPointMass (dt e) p a)
                            (zip (pointMasses (state e)) (pointAccelerations d)),
            rigidBodies = map (\<lambda>(r, a). eulerRigidBody (dt e) r a)
                            (zip (rigidBodies (state e))
                               (zip (rigidLinearAccelerations d)
                                    (rigidAngularAccelerations d))) \<rparr> \<rparr>)"
    by blast
  have lp: "length (pointMasses (state e)) \<le> length (pointAccelerations d)"
    using d by simp
  have lr: "length (rigidBodies (state e)) \<le>
      length (zip (rigidLinearAccelerations d) (rigidAngularAccelerations d))"
    using d by simp
  from frame_of_maps[OF lp lr, of "eulerPointMass (dt e)" "eulerRigidBody (dt e)"] st
  show ?thesis by (simp add: eulerPointMass_frame eulerRigidBody_frame)
next
  case Semi
  from step_semi_eq[OF inv Semi] obtain d :: Derivative where
    d: "length (pointAccelerations d) = length (pointMasses (state e))"
       "length (rigidLinearAccelerations d) = length (rigidBodies (state e))"
       "length (rigidAngularAccelerations d) = length (rigidBodies (state e))"
    and st: "step e = Inr (e\<lparr> state := \<lparr> time = time (state e) + dt e,
            stepIndex = stepIndex (state e) + 1,
            pointMasses = map (\<lambda>(p, a). semiPointMass (dt e) p a)
                            (zip (pointMasses (state e)) (pointAccelerations d)),
            rigidBodies = map (\<lambda>(r, a). semiRigidBody (dt e) r a)
                            (zip (rigidBodies (state e))
                               (zip (rigidLinearAccelerations d)
                                    (rigidAngularAccelerations d))) \<rparr> \<rparr>)"
    by blast
  have lp: "length (pointMasses (state e)) \<le> length (pointAccelerations d)"
    using d by simp
  have lr: "length (rigidBodies (state e)) \<le>
      length (zip (rigidLinearAccelerations d) (rigidAngularAccelerations d))"
    using d by simp
  from frame_of_maps[OF lp lr, of "semiPointMass (dt e)" "semiRigidBody (dt e)"] st
  show ?thesis by (simp add: semiPointMass_frame semiRigidBody_frame)
next
  case Rk4
  from step_rk4_eq[OF inv Rk4] obtain k1 k2 k3 k4 :: Derivative where
    lp: "length (pointAccelerations k1) = length (pointMasses (state e))"
      "length (pointAccelerations k2) = length (pointMasses (state e))"
      "length (pointAccelerations k3) = length (pointMasses (state e))"
      "length (pointAccelerations k4) = length (pointMasses (state e))"
    and ll: "length (rigidLinearAccelerations k1) = length (rigidBodies (state e))"
      "length (rigidLinearAccelerations k2) = length (rigidBodies (state e))"
      "length (rigidLinearAccelerations k3) = length (rigidBodies (state e))"
      "length (rigidLinearAccelerations k4) = length (rigidBodies (state e))"
    and la: "length (rigidAngularAccelerations k1) = length (rigidBodies (state e))"
      "length (rigidAngularAccelerations k2) = length (rigidBodies (state e))"
      "length (rigidAngularAccelerations k3) = length (rigidBodies (state e))"
      "length (rigidAngularAccelerations k4) = length (rigidBodies (state e))"
    and st: "step e = Inr (e\<lparr> state := \<lparr> time = time (state e) + dt e,
            stepIndex = stepIndex (state e) + 1,
            pointMasses = map (\<lambda>(p, ks). rk4PointMass (dt e) p ks)
              (zip (pointMasses (state e))
                 (zip4 (pointAccelerations k1) (pointAccelerations k2)
                       (pointAccelerations k3) (pointAccelerations k4))),
            rigidBodies = map (\<lambda>(r, ks). rk4RigidBody (dt e) r ks)
              (zip (rigidBodies (state e))
                 (zip (zip4 (rigidLinearAccelerations k1) (rigidLinearAccelerations k2)
                            (rigidLinearAccelerations k3) (rigidLinearAccelerations k4))
                      (zip4 (rigidAngularAccelerations k1) (rigidAngularAccelerations k2)
                            (rigidAngularAccelerations k3) (rigidAngularAccelerations k4)))) \<rparr> \<rparr>)"
    by blast
  have p: "length (pointMasses (state e)) \<le> length (zip4 (pointAccelerations k1)
             (pointAccelerations k2) (pointAccelerations k3) (pointAccelerations k4))"
    using lp by (simp add: length_zip4)
  have r: "length (rigidBodies (state e)) \<le> length
            (zip (zip4 (rigidLinearAccelerations k1) (rigidLinearAccelerations k2)
                       (rigidLinearAccelerations k3) (rigidLinearAccelerations k4))
                 (zip4 (rigidAngularAccelerations k1) (rigidAngularAccelerations k2)
                       (rigidAngularAccelerations k3) (rigidAngularAccelerations k4)))"
    using ll la by (simp add: length_zip4)
  from frame_of_maps[OF p r, of "rk4PointMass (dt e)" "rk4RigidBody (dt e)"] st
  show ?thesis by (simp add: rk4PointMass_frame rk4RigidBody_frame)
qed

lemma step_frame_inv: "engine_inv e \<Longrightarrow> step_frame e e' \<Longrightarrow> engine_inv e'"
  by (simp add: engine_inv_def step_frame_def)

lemma engine_inv_new: "engine_inv (newPhysicsEngine cfg)"
  by (simp add: engine_inv_def newPhysicsEngine_def comp_def)

lemma getState_eq: "getState e = state e"
  by (simp add: getState_def cloneState_id)


lemma impulseFirstRigidBody_none:
  "objectId \<notin> set (map rb_id rbs) \<Longrightarrow> impulseFirstRigidBody objectId impulse rbs = rbs"
  by (induction rbs) auto

lemma engine_inv_None:
  "engine_inv e \<Longrightarrow> k \<notin> set (map pm_id (pointMasses (state e))) \<Longrightarrow>
   pointMassIndexById e k = None"
  by (simp add: engine_inv_def setIndices_notin)

lemma engine_inv_last:
  assumes "engine_inv e" and "i < length (pointMasses (state e))"
    and "\<forall>j. i < j \<and> j < length (pointMasses (state e)) \<longrightarrow>
           pm_id (pointMasses (state e) ! j) \<noteq> pm_id (pointMasses (state e) ! i)"
  shows "pointMassIndexById e (pm_id (pointMasses (state e) ! i)) = Some i"
  using setIndices_last[of i "map pm_id (pointMasses (state e))"] assms
  by (simp add: engine_inv_def)


lemma applySpring_unresolved:
  "idx (aId s) = None \<or> idx (bId s) = None \<Longrightarrow> applySpring idx st s acc = Inr acc"
  by (auto simp: applySpring_def split: option.splits)

lemma springLoop_skip:
  "idx (aId s) = None \<or> idx (bId s) = None \<Longrightarrow>
   springLoop idx st (xs @ s # ys) acc = springLoop idx st (xs @ ys) acc"
proof (induction xs arbitrary: acc)
  case Nil
  then show ?case by (simp add: applySpring_unresolved)
next
  case (Cons x xs)
  then show ?case by (simp split: sum.splits)
qed

lemma computeDerivative_skip:
  assumes "pointMassIndexById e (aId s) = None \<or> pointMassIndexById e (bId s) = None"
    and "springs e = xs @ s # ys"
  shows "computeDerivative (e\<lparr> springs := xs @ ys \<rparr>) st = computeDerivative e st"
  using assms springLoop_skip[of "pointMassIndexById e" s st xs ys]
  by (simp add: computeDerivative_def)

lemma no_forces_zero:
  "Option.bind fs gravity = None \<Longrightarrow> Option.bind fs linearDrag = None \<Longrightarrow>
   sumAccelerationsForPointMass pm fs = (0, 0, 0)"
  by (simp add: sumAccelerationsForPointMass_def gravityAcceleration_def
      linearDragAcceleration_def)

lemma applySpring_resolved:
  assumes "idx (aId s) = Some ia" "idx (bId s) = Some ib"
    and "ia < length (pointMasses st)" "ib < length (pointMasses st)"
    and "F = springForceVec (pointMasses st ! ia) (pointMasses st ! ib) s"
  shows "applySpring idx st s acc =
     Inr ((acc[ia := vecAdd (acc ! ia) (vecScale F (1 / pm_mass (pointMasses st ! ia)))])
          [ib := vecAdd ((acc[ia := vecAdd (acc ! ia)
                                 (vecScale F (1 / pm_mass (pointMasses st ! ia)))]) ! ib)
                   (vecScale (vecScale F (- 1)) (1 / pm_mass (pointMasses st ! ib)))])"
  using assms by (simp add: applySpring_def Let_def)

lemma weighted_pair_zero:
  assumes "ma \<noteq> 0" "mb \<noteq> 0" "ia < n" "ib < n" "ia = ib \<longrightarrow> ma = mb"
  shows "vecAdd
      (vecScale (((replicate n (0, 0, 0))[ia := vecAdd ((replicate n (0, 0, 0)) ! ia) (vecScale F (1 / ma))])
          [ib := vecAdd (((replicate n (0, 0, 0))[ia := vecAdd ((replicate n (0, 0, 0)) ! ia)
                                 (vecScale F (1 / ma))]) ! ib)
                   (vecScale (vecScale F (- 1)) (1 / mb))] ! ia) ma)
      (vecScale (((replicate n (0, 0, 0))[ia := vecAdd ((replicate n (0, 0, 0)) ! ia) (vecScale F (1 / ma))])
          [ib := vecAdd (((replicate n (0, 0, 0))[ia := vecAdd ((replicate n (0, 0, 0)) ! ia)
                                 (vecScale F (1 / ma))]) ! ib)
                   (vecScale (vecScale F (- 1)) (1 / mb))] ! ib) mb)
     = (0, 0, 0)"
proof -
  obtain f0 f1 f2 where F: "F = (f0, f1, f2)" by (cases F) auto
  show ?thesis
  proof (cases "ia = ib")
    case True
    then show ?thesis using assms by (simp add: F)
  next
    case False
    then show ?thesis using assms by (simp add: F)
  qed
qed

text \<open>With one spring between the point masses \<open>ia\<close> and \<open>ib\<close> and no force field, the
  mass-weighted accelerations of the two cancel at every state.\<close>

lemma derivative_momentum_zero:
  assumes sp: "springs e = [s]"
    and a: "pointMassIndexById e (aId s) = Some ia" and b: "pointMassIndexById e (bId s) = Some ib"
    and la: "ia < length (pointMasses st)" and lb: "ib < length (pointMasses st)"
    and ng: "Option.bind (forces e) gravity = None"
    and nd: "Option.bind (forces e) linearDrag = None"
    and ma: "pm_mass (pointMasses st ! ia) \<noteq> 0" and mb: "pm_mass (pointMasses st ! ib) \<noteq> 0"
    and d: "computeDerivative e st = Inr d"
  shows "vecAdd (vecScale (pointAccelerations d ! ia) (pm_mass (pointMasses st ! ia)))
                (vecScale (pointAccelerations d ! ib) (pm_mass (pointMasses st ! ib)))
         = (0, 0, 0)"
proof -
  have z: "map (\<lambda>pm. sumAccelerationsForPointMass pm (forces e)) (pointMasses st)
           = replicate (length (pointMasses st)) (0, 0, 0)"
    by (simp add: no_forces_zero[OF ng nd] map_replicate_const)
  define F where "F = springForceVec (pointMasses st ! ia) (pointMasses st ! ib) s"
  note F = applySpring_resolved[OF a b la lb F_def,
      of "replicate (length (pointMasses st)) (0, 0, 0)"]
  have "pointAccelerations d =
     ((replicate (length (pointMasses st)) (0, 0, 0))
            [ia := vecAdd ((replicate (length (pointMasses st)) (0, 0, 0)) ! ia)
                     (vecScale F (1 / pm_mass (pointMasses st ! ia)))])
          [ib := vecAdd (((replicate (length (pointMasses st)) (0, 0, 0))
                    [ia := vecAdd ((replicate (length (pointMasses st)) (0, 0, 0)) ! ia)
                                 (vecScale F (1 / pm_mass (pointMasses st ! ia)))]) ! ib)
                   (vecScale (vecScale F (- 1)) (1 / pm_mass (pointMasses st ! ib)))]"
    using d unfolding computeDerivative_def sp z springLoop.simps F
    by (auto simp: bindE_Inr)
  then show ?thesis
    using weighted_pair_zero[OF ma mb la lb, of F] by auto
qed

lemma vec_momentum_step:
  assumes "vecAdd (vecScale ka ma) (vecScale kb mb) = (0, 0, 0)"
  shows "vecAdd (vecScale (vecAdd va (vecScale ka h)) ma) (vecScale (vecAdd vb (vecScale kb h)) mb)
         = vecAdd (vecScale va ma) (vecScale vb mb)"
proof -
  obtain a0 a1 a2 where ka: "ka = (a0, a1, a2)" by (cases ka) auto
  obtain b0 b1 b2 where kb: "kb = (b0, b1, b2)" by (cases kb) auto
  obtain u0 u1 u2 where va: "va = (u0, u1, u2)" by (cases va) auto
  obtain w0 w1 w2 where vb: "vb = (w0, w1, w2)" by (cases vb) auto
  from assms have z: "a0 * ma + b0 * mb = 0" "a1 * ma + b1 * mb = 0" "a2 * ma + b2 * mb = 0"
    by (simp_all add: ka kb)
  have "(u0 + a0 * h) * ma + (w0 + b0 * h) * mb = u0 * ma + w0 * mb + h * (a0 * ma + b0 * mb)"
       "(u1 + a1 * h) * ma + (w1 + b1 * h) * mb = u1 * ma + w1 * mb + h * (a1 * ma + b1 * mb)"
       "(u2 + a2 * h) * ma + (w2 + b2 * h) * mb = u2 * ma + w2 * mb + h * (a2 * ma + b2 * mb)"
    by (simp_all add: algebra_simps)
  then show ?thesis by (simp add: ka kb va vb z)
qed

lemma vec_blend_zero:
  assumes "vecAdd (vecScale a1 ma) (vecScale b1 mb) = (0, 0, 0)"
    and "vecAdd (vecScale a2 ma) (vecScale b2 mb) = (0, 0, 0)"
    and "vecAdd (vecScale a3 ma) (vecScale b3 mb) = (0, 0, 0)"
    and "vecAdd (vecScale a4 ma) (vecScale b4 mb) = (0, 0, 0)"
  shows "vecAdd (vecScale (rk4Blend a1 a2 a3 a4) ma) (vecScale (rk4Blend b1 b2 b3 b4) mb)
         = (0, 0, 0)"
proof -
  obtain p0 p1 p2 where a1: "a1 = (p0, p1, p2)" by (cases a1) auto
  obtain q0 q1 q2 where a2: "a2 = (q0, q1, q2)" by (cases a2) auto
  obtain r0 r1 r2 where a3: "a3 = (r0, r1, r2)" by (cases a3) auto
  obtain s0 s1 s2 where a4: "a4 = (s0, s1, s2)" by (cases a4) auto
  obtain t0 t1 t2 where b1: "b1 = (t0, t1, t2)" by (cases b1) auto
  obtain u0 u1 u2 where b2: "b2 = (u0, u1, u2)" by (cases b2) auto
  obtain v0 v1 v2 where b3: "b3 = (v0, v1, v2)" by (cases b3) auto
  obtain w0 w1 w2 where b4: "b4 = (w0, w1, w2)" by (cases b4) auto
  from assms have z:
    "p0 * ma + t0 * mb = 0" "p1 * ma + t1 * mb = 0" "p2 * ma + t2 * mb = 0"
    "q0 * ma + u0 * mb = 0" "q1 * ma + u1 * mb = 0" "q2 * ma + u2 * mb = 0"
    "r0 * ma + v0 * mb = 0" "r1 * ma + v1 * mb = 0" "r2 * ma + v2 * mb = 0"
    "s0 * ma + w0 * mb = 0" "s1 * ma + w1 * mb = 0" "s2 * ma + w2 * mb = 0"
    by (simp_all add: a1 a2 a3 a4 b1 b2 b3 b4)
  have "(p0 + 2 * q0 + 2 * r0 + s0) * ma + (t0 + 2 * u0 + 2 * v0 + w0) * mb
        = (p0 * ma + t0 * mb) + 2 * (q0 * ma + u0 * mb) + 2 * (r0 * ma + v0 * mb)
          + (s0 * ma + w0 * mb)"
       "(p1 + 2 * q1 + 2 * r1 + s1) * ma + (t1 + 2 * u1 + 2 * v1 + w1) * mb
        = (p1 * ma + t1 * mb) + 2 * (q1 * ma + u1 * mb) + 2 * (r1 * ma + v1 * mb)
          + (s1 * ma + w1 * mb)"
       "(p2 + 2 * q2 + 2 * r2 + s2) * ma + (t2 + 2 * u2 + 2 * v2 + w2) * mb
        = (p2 * ma + t2 * mb) + 2 * (q2 * ma + u2 * mb) + 2 * (r2 * ma + v2 * mb)
          + (s2 * ma + w2 * mb)"
    by (simp_all add: algebra_simps)
  then show ?thesis by (simp add: a1 a2 a3 a4 b1 b2 b3 b4 z)
qed

lemma rk4Stage_masses:
  assumes s: "rk4Stage cur k h = Inr s"
    and lp: "length (pointAccelerations k) = length (pointMasses cur)"
    and ll: "length (rigidLinearAccelerations k) = length (rigidBodies cur)"
    and la: "length (rigidAngularAccelerations k) = length (rigidBodies cur)"
    and i: "i < length (pointMasses cur)"
  shows "i < length (pointMasses s) \<and> pm_mass (pointMasses s ! i) = pm_mass (pointMasses cur ! i)"
proof -
  have eq: "pointMasses s = map (\<lambda>(p, a). eulerPointMass h p a)
                               (zip (pointMasses cur) (pointAccelerations k))"
    using s rk4Stage_Inr[of cur k h] lp ll la by auto
  have "pointMasses s ! i = eulerPointMass h (pointMasses cur ! i) (pointAccelerations k ! i)"
    unfolding eq using i lp by simp
  moreover have "length (pointMasses s) = length (pointMasses cur)"
    unfolding eq using lp by simp
  ultimately show ?thesis using i by (simp add: eulerPointMass_frame)
qed

lemma pairMomentum_update:
  assumes ia: "ia < length ps" and ib: "ib < length ps"
    and lp: "length ps \<le> length ds"
    and m: "\<And>p a. pm_mass (f p a) = pm_mass p"
    and v: "\<And>p a. pm_velocity (f p a) = vecAdd (pm_velocity p) (vecScale (w a) h)"
    and z: "vecAdd (vecScale (w (ds ! ia)) (pm_mass (ps ! ia)))
                   (vecScale (w (ds ! ib)) (pm_mass (ps ! ib))) = (0, 0, 0)"
  shows "pairMomentum \<lparr> time = t, stepIndex = n,
            pointMasses = map (\<lambda>(p, a). f p a) (zip ps ds), rigidBodies = rs \<rparr> ia ib
         = vecAdd (vecScale (pm_velocity (ps ! ia)) (pm_mass (ps ! ia)))
                  (vecScale (pm_velocity (ps ! ib)) (pm_mass (ps ! ib)))"
proof -
  have a: "map (\<lambda>(p, a). f p a) (zip ps ds) ! ia = f (ps ! ia) (ds ! ia)"
    using ia lp by simp
  have b: "map (\<lambda>(p, a). f p a) (zip ps ds) ! ib = f (ps ! ib) (ds ! ib)"
    using ib lp by simp
  show ?thesis
    unfolding pairMomentum_def
    by (simp only: SimulationState.simps a b m v vec_momentum_step[OF z])
qed

lemma step_Inr_unique: "step e = Inr e1 \<Longrightarrow> step e = Inr e2 \<Longrightarrow> e1 = e2"
  by simp

lemma derivative_single_spring:
  assumes sp: "springs e = [s]"
    and a: "pointMassIndexById e (aId s) = Some ia" and b: "pointMassIndexById e (bId s) = Some ib"
    and la: "ia < length (pointMasses st)" and lb: "ib < length (pointMasses st)"
    and ng: "Option.bind (forces e) gravity = None"
    and nd: "Option.bind (forces e) linearDrag = None"
    and ne: "ia \<noteq> ib"
    and F: "F = springForceVec (pointMasses st ! ia) (pointMasses st ! ib) s"
  shows "\<exists>d. computeDerivative e st = Inr d \<and>
     pointAccelerations d ! ia = vecScale F (1 / pm_mass (pointMasses st ! ia)) \<and>
     pointAccelerations d ! ib = vecScale (vecScale F (- 1)) (1 / pm_mass (pointMasses st ! ib))"
proof -
  have z: "map (\<lambda>pm. sumAccelerationsForPointMass pm (forces e)) (pointMasses st)
           = replicate (length (pointMasses st)) (0, 0, 0)"
    by (simp add: no_forces_zero[OF ng nd] map_replicate_const)
  note A = applySpring_resolved[OF a b la lb F,
      of "replicate (length (pointMasses st)) (0, 0, 0)"]
  obtain f0 f1 f2 where Fv: "F = (f0, f1, f2)" by (cases F) auto
  show ?thesis
    unfolding computeDerivative_def sp z springLoop.simps A
    using la lb ne by (simp add: bindE_Inr Fv)
qed

lemma demo_engine:
  "demoEngine =
     \<lparr> dt = 1 / 100, integratorName = Rk4, forces = None,
       pointMassIndexById = [''a'' \<mapsto> 0, ''b'' \<mapsto> 1],
       springs = [demoSpring],
       state = \<lparr> time = 0, stepIndex = 0,
         pointMasses =
           [\<lparr> pm_id = ''a'', pm_mass = 1, pm_position = (0, 0, 0), pm_velocity = (0, 0, 0) \<rparr>,
            \<lparr> pm_id = ''b'', pm_mass = 2, pm_position = (2, 0, 0), pm_velocity = (0, 1, 0) \<rparr>],
         rigidBodies =
           [\<lparr> rb_id = ''box'', rb_mass = 1, rb_size = (1, 1, 1), rb_position = (0, 5, 0),
               rb_velocity = (0, 0, 0), rb_orientation = (0, 0, 0, 2),
               rb_angularVelocity = (0, 1, 0) \<rparr>] \<rparr> \<rparr>"
  by (simp add: newPhysicsEngine_def demoConfig_def orEmpty_def)

lemma demo_inv: "engine_inv demoEngine"
  by (simp add: engine_inv_def demo_engine)


lemma applyImpulse_inv:
  assumes inv: "engine_inv e" and ap: "applyImpulse e k J = Inr e'"
  shows "engine_inv e'"
proof (cases "pointMassIndexById e k")
  case None
  with ap have "e' = e\<lparr> state := (state e)\<lparr> rigidBodies :=
                   impulseFirstRigidBody k J (rigidBodies (state e)) \<rparr> \<rparr>"
    by (simp add: applyImpulse_def)
  with inv show ?thesis by (simp add: engine_inv_def)
next
  case (Some i)
  from engine_inv_range[OF inv Some] have i: "i < length (pointMasses (state e))" by simp
  let ?p = "pointMasses (state e) ! i"
  from ap Some i have e': "e' = e\<lparr> state := (state e)\<lparr> pointMasses :=
      (pointMasses (state e))[i := ?p\<lparr> pm_velocity :=
          vecAdd (pm_velocity ?p) (vecScale J (1 / pm_mass ?p)) \<rparr>] \<rparr> \<rparr>"
    by (simp add: applyImpulse_def Let_def)
  have "map pm_id ((pointMasses (state e))[i := ?p\<lparr> pm_velocity :=
          vecAdd (pm_velocity ?p) (vecScale J (1 / pm_mass ?p)) \<rparr>])
        = map pm_id (pointMasses (state e))"
    using i by (simp add: map_update list_update_same_conv)
  with inv show ?thesis by (simp add: engine_inv_def e')
qed

text \<open>Every engine that can exist satisfies the class invariant.\<close>

lemma reachable_engine_inv: "reachable e \<Longrightarrow> engine_inv e"
proof (induction rule: reachable.induct)
  case (constructed config)
  show ?case by (rule engine_inv_new)
next
  case (stepped e e')
  from step_ok_frame[OF stepped.IH] stepped.hyps(2) have "step_frame e e'" by auto
  with stepped.IH show ?case by (rule step_frame_inv)
next
  case (impulsed e objectId impulse e')
  then show ?case by (auto intro: applyImpulse_inv)
qed







section \<open>Properties of the engine\<close>

subsection \<open>C1\<close>

text \<open>
  Claim C1. Let the engine satisfy the class invariant and let \<open>p\<close> be the point mass at
  index \<open>i\<close>, with nonzero mass, such that no later point mass carries the same id (the
  id map keeps the last entry of an id; with unique ids this is every point mass). Then
  \<open>applyImpulse\<close> with the id of \<open>p\<close> and the impulse \<open>(j0, j1, j2)\<close> returns normally,
  the velocity of that point mass grows by \<open>(j0 / m, j1 / m, j2 / m)\<close>, and its position,
  id and mass, the state's time and stepIndex and the configured integrator are as
  before. The integrator is any of the three: it is a field of \<open>e\<close> that the statement
  does not restrict.
\<close>

theorem applyImpulse_point_mass_exact:
  assumes inv: "engine_inv e"
    and i: "i < length (pointMasses (getState e))"
    and p: "pointMasses (getState e) ! i = p"
    and last: "\<forall>j. i < j \<and> j < length (pointMasses (getState e)) \<longrightarrow>
                 pm_id (pointMasses (getState e) ! j) \<noteq> pm_id p"
    and m: "pm_mass p \<noteq> 0"
  shows "\<exists>e'. applyImpulse e (pm_id p) (j0, j1, j2) = Inr e' \<and>
     pm_velocity (pointMasses (getState e') ! i) =
       vecAdd (pm_velocity p) (j0 / pm_mass p, j1 / pm_mass p, j2 / pm_mass p) \<and>
     pm_position (pointMasses (getState e') ! i) = pm_position p \<and>
     pm_id (pointMasses (getState e') ! i) = pm_id p \<and>
     pm_mass (pointMasses (getState e') ! i) = pm_mass p \<and>
     time (getState e') = time (getState e) \<and>
     stepIndex (getState e') = stepIndex (getState e) \<and>
     integratorName e' = integratorName e \<and>
     engine_inv e'"
proof -
  have idx: "pointMassIndexById e (pm_id p) = Some i"
    using engine_inv_last[OF inv, of i] i p last by (simp add: getState_eq)
  let ?p' = "p\<lparr> pm_velocity := vecAdd (pm_velocity p) (vecScale (j0, j1, j2) (1 / pm_mass p)) \<rparr>"
  let ?e' = "e\<lparr> state := (state e)\<lparr> pointMasses := (pointMasses (state e))[i := ?p'] \<rparr> \<rparr>"
  have ap: "applyImpulse e (pm_id p) (j0, j1, j2) = Inr ?e'"
    using idx i p by (simp add: applyImpulse_def getState_eq Let_def)
  have ids: "map pm_id ((pointMasses (state e))[i := ?p']) = map pm_id (pointMasses (state e))"
    using i p by (simp add: getState_eq map_update list_update_same_conv)
  have inv': "engine_inv ?e'"
    using inv ids by (simp add: engine_inv_def)
  have v: "vecScale (j0, j1, j2) (1 / pm_mass p)
           = (j0 / pm_mass p, j1 / pm_mass p, j2 / pm_mass p)"
    by simp
  show ?thesis
    using ap inv' i v by (simp add: getState_eq)
qed

text \<open>Witness for C1: the impulse \<open>(2, 4, 6)\<close> on the point mass \<open>b\<close> of mass 2 in the
  demonstration scene.\<close>

theorem applyImpulse_point_mass_exact_witness:
  "\<exists>e'. applyImpulse demoEngine ''b'' (2, 4, 6) = Inr e' \<and>
     pm_velocity (pointMasses (getState e') ! 1) = (1, 3, 3) \<and>
     pm_position (pointMasses (getState e') ! 1) = (2, 0, 0) \<and>
     time (getState e') = 0 \<and> stepIndex (getState e') = 0"
proof -
  let ?e = "demoEngine"
  let ?p = "\<lparr> pm_id = ''b'', pm_mass = 2, pm_position = (2, 0, 0), pm_velocity = (0, 1, 0) \<rparr>"
  have i: "1 < length (pointMasses (getState ?e))"
    by (simp add: getState_eq demo_engine)
  have p: "pointMasses (getState ?e) ! 1 = ?p"
    by (simp add: getState_eq demo_engine)
  have last: "\<forall>j. 1 < j \<and> j < length (pointMasses (getState ?e)) \<longrightarrow>
                 pm_id (pointMasses (getState ?e) ! j) \<noteq> pm_id ?p"
    by (simp add: getState_eq demo_engine)
  have m: "pm_mass ?p \<noteq> 0" by simp
  from applyImpulse_point_mass_exact[OF demo_inv i p last m, of 2 4 6]
  obtain e' where e': "applyImpulse ?e (pm_id ?p) (2, 4, 6) = Inr e'"
    "pm_velocity (pointMasses (getState e') ! 1) =
       vecAdd (pm_velocity ?p) (2 / pm_mass ?p, 4 / pm_mass ?p, 6 / pm_mass ?p)"
    "pm_position (pointMasses (getState e') ! 1) = pm_position ?p"
    "time (getState e') = time (getState ?e)"
    "stepIndex (getState e') = stepIndex (getState ?e)"
    by blast
  have t: "time (getState ?e) = 0" "stepIndex (getState ?e) = 0"
    by (simp_all add: getState_eq demo_engine)
  show ?thesis
    by (rule exI[of _ e']) (use e' t in simp)
qed

subsection \<open>C2\<close>



subsection \<open>C3\<close>



subsection \<open>C4\<close>

text \<open>
  Claim C4. Let the engine satisfy the class invariant, have exactly one spring, whose
  anchors resolve to the point masses \<open>ia\<close> and \<open>ib\<close>, have neither gravity nor linear
  drag configured, and let both masses be nonzero. Then every \<open>step\<close>, with any of the
  three integrators, returns normally and leaves \<open>mass_a * velocity_a + mass_b * velocity_b\<close>
  unchanged; the hypotheses hold again afterwards, so this is so for every further step.
  When the two point masses are different, the derivative evaluator gives them the
  accelerations \<open>+F / mass_a\<close> and \<open>- F / mass_b\<close>, \<open>F\<close> being the spring's force vector.
\<close>

theorem spring_pair_momentum_conserved:
  assumes inv: "engine_inv e"
    and sp: "springs e = [s]"
    and a: "pointMassIndexById e (aId s) = Some ia"
    and b: "pointMassIndexById e (bId s) = Some ib"
    and ng: "Option.bind (forces e) gravity = None"
    and nd: "Option.bind (forces e) linearDrag = None"
    and ma: "pm_mass (pointMasses (getState e) ! ia) \<noteq> 0"
    and mb: "pm_mass (pointMasses (getState e) ! ib) \<noteq> 0"
  shows "(\<exists>e'. step e = Inr e' \<and>
           pairMomentum (getState e') ia ib = pairMomentum (getState e) ia ib \<and>
           engine_inv e' \<and> springs e' = [s] \<and>
           pointMassIndexById e' = pointMassIndexById e \<and> forces e' = forces e \<and>
           pm_mass (pointMasses (getState e') ! ia) = pm_mass (pointMasses (getState e) ! ia) \<and>
           pm_mass (pointMasses (getState e') ! ib) = pm_mass (pointMasses (getState e) ! ib)) \<and>
         (ia \<noteq> ib \<longrightarrow>
           (\<exists>d. computeDerivative e (getState e) = Inr d \<and>
              pointAccelerations d ! ia =
                vecScale (springForceVec (pointMasses (getState e) ! ia)
                            (pointMasses (getState e) ! ib) s)
                         (1 / pm_mass (pointMasses (getState e) ! ia)) \<and>
              pointAccelerations d ! ib =
                vecScale (vecScale (springForceVec (pointMasses (getState e) ! ia)
                                      (pointMasses (getState e) ! ib) s) (- 1))
                         (1 / pm_mass (pointMasses (getState e) ! ib))))"
proof -
  from step_ok_frame[OF inv] obtain e1 where e1: "step e = Inr e1" "step_frame e e1" by blast
  have inv1: "engine_inv e1" using step_frame_inv[OF inv e1(2)] .
  have keep: "springs e1 = [s]" "pointMassIndexById e1 = pointMassIndexById e"
    "forces e1 = forces e"
    "map pm_mass (pointMasses (state e1)) = map pm_mass (pointMasses (state e))"
    using e1(2) sp by (simp_all add: step_frame_def)
  have len1: "length (pointMasses (state e1)) = length (pointMasses (state e))"
    using keep(4) by (rule map_eq_imp_length_eq)
  have mass1: "pm_mass (pointMasses (state e1) ! i) = pm_mass (pointMasses (state e) ! i)"
    if "i < length (pointMasses (state e))" for i
    using nth_map[of i "pointMasses (state e1)" pm_mass]
      nth_map[of i "pointMasses (state e)" pm_mass] that len1 keep(4) by simp
  have mom: "pairMomentum (getState e1) ia ib = pairMomentum (getState e) ia ib"
  proof -
  have la: "ia < length (pointMasses (state e))" and lb: "ib < length (pointMasses (state e))"
    using engine_inv_range[OF inv a] engine_inv_range[OF inv b] by simp_all
  have ma': "pm_mass (pointMasses (state e) ! ia) \<noteq> 0"
    and mb': "pm_mass (pointMasses (state e) ! ib) \<noteq> 0"
    using ma mb by (simp_all add: getState_eq)
  have P: "pairMomentum (getState e) ia ib =
      vecAdd (vecScale (pm_velocity (pointMasses (state e) ! ia)) (pm_mass (pointMasses (state e) ! ia)))
             (vecScale (pm_velocity (pointMasses (state e) ! ib)) (pm_mass (pointMasses (state e) ! ib)))"
    by (simp add: pairMomentum_def getState_eq)
  show ?thesis
  proof (cases "integratorName e")
    case Euler
    from step_euler_eq[OF inv Euler] obtain d :: Derivative where
      d: "computeDerivative e (state e) = Inr d"
         "length (pointAccelerations d) = length (pointMasses (state e))"
      and st: "step e = Inr (e\<lparr> state := \<lparr> time = time (state e) + dt e,
            stepIndex = stepIndex (state e) + 1,
            pointMasses = map (\<lambda>(p, a). eulerPointMass (dt e) p a)
                            (zip (pointMasses (state e)) (pointAccelerations d)),
            rigidBodies = map (\<lambda>(r, a). eulerRigidBody (dt e) r a)
                            (zip (rigidBodies (state e))
                               (zip (rigidLinearAccelerations d)
                                    (rigidAngularAccelerations d))) \<rparr> \<rparr>)"
      by blast
    note z = derivative_momentum_zero[OF sp a b la lb ng nd ma' mb' d(1)]
    have lp: "length (pointMasses (state e)) \<le> length (pointAccelerations d)"
      using d(2) by simp
    have "pairMomentum \<lparr> time = time (state e) + dt e,
            stepIndex = stepIndex (state e) + 1,
            pointMasses = map (\<lambda>(p, a). eulerPointMass (dt e) p a)
                            (zip (pointMasses (state e)) (pointAccelerations d)),
            rigidBodies = map (\<lambda>(r, a). eulerRigidBody (dt e) r a)
                            (zip (rigidBodies (state e))
                               (zip (rigidLinearAccelerations d)
                                    (rigidAngularAccelerations d))) \<rparr> ia ib
        = pairMomentum (getState e) ia ib"
      unfolding P
      by (rule pairMomentum_update[OF la lb lp, where w = "\<lambda>a. a"])
         (simp_all add: eulerPointMass_def z)
    with st e1(1) show ?thesis by (auto simp: getState_eq)
  next
    case Semi
    from step_semi_eq[OF inv Semi] obtain d :: Derivative where
      d: "computeDerivative e (state e) = Inr d"
         "length (pointAccelerations d) = length (pointMasses (state e))"
      and st: "step e = Inr (e\<lparr> state := \<lparr> time = time (state e) + dt e,
            stepIndex = stepIndex (state e) + 1,
            pointMasses = map (\<lambda>(p, a). semiPointMass (dt e) p a)
                            (zip (pointMasses (state e)) (pointAccelerations d)),
            rigidBodies = map (\<lambda>(r, a). semiRigidBody (dt e) r a)
                            (zip (rigidBodies (state e))
                               (zip (rigidLinearAccelerations d)
                                    (rigidAngularAccelerations d))) \<rparr> \<rparr>)"
      by blast
    note z = derivative_momentum_zero[OF sp a b la lb ng nd ma' mb' d(1)]
    have lp: "length (pointMasses (state e)) \<le> length (pointAccelerations d)"
      using d(2) by simp
    have "pairMomentum \<lparr> time = time (state e) + dt e,
            stepIndex = stepIndex (state e) + 1,
            pointMasses = map (\<lambda>(p, a). semiPointMass (dt e) p a)
                            (zip (pointMasses (state e)) (pointAccelerations d)),
            rigidBodies = map (\<lambda>(r, a). semiRigidBody (dt e) r a)
                            (zip (rigidBodies (state e))
                               (zip (rigidLinearAccelerations d)
                                    (rigidAngularAccelerations d))) \<rparr> ia ib
        = pairMomentum (getState e) ia ib"
      unfolding P
      by (rule pairMomentum_update[OF la lb lp, where w = "\<lambda>a. a"])
         (simp_all add: semiPointMass_def Let_def z)
    with st e1(1) show ?thesis by (auto simp: getState_eq)
  next
    case Rk4
    from step_rk4_eq[OF inv Rk4] obtain k1 s2 k2 s3 k3 s4 k4 where
      c: "computeDerivative e (state e) = Inr k1" "rk4Stage (state e) k1 (dt e * 0.5) = Inr s2"
        "computeDerivative e s2 = Inr k2" "rk4Stage (state e) k2 (dt e * 0.5) = Inr s3"
        "computeDerivative e s3 = Inr k3" "rk4Stage (state e) k3 (dt e) = Inr s4"
        "computeDerivative e s4 = Inr k4"
      and lp: "length (pointAccelerations k1) = length (pointMasses (state e))"
        "length (pointAccelerations k2) = length (pointMasses (state e))"
        "length (pointAccelerations k3) = length (pointMasses (state e))"
        "length (pointAccelerations k4) = length (pointMasses (state e))"
      and ll: "length (rigidLinearAccelerations k1) = length (rigidBodies (state e))"
        "length (rigidLinearAccelerations k2) = length (rigidBodies (state e))"
        "length (rigidLinearAccelerations k3) = length (rigidBodies (state e))"
      and lan: "length (rigidAngularAccelerations k1) = length (rigidBodies (state e))"
        "length (rigidAngularAccelerations k2) = length (rigidBodies (state e))"
        "length (rigidAngularAccelerations k3) = length (rigidBodies (state e))"
      and st: "step e = Inr (e\<lparr> state := \<lparr> time = time (state e) + dt e,
            stepIndex = stepIndex (state e) + 1,
            pointMasses = map (\<lambda>(p, ks). rk4PointMass (dt e) p ks)
              (zip (pointMasses (state e))
                 (zip4 (pointAccelerations k1) (pointAccelerations k2)
                       (pointAccelerations k3) (pointAccelerations k4))),
            rigidBodies = map (\<lambda>(r, ks). rk4RigidBody (dt e) r ks)
              (zip (rigidBodies (state e))
                 (zip (zip4 (rigidLinearAccelerations k1) (rigidLinearAccelerations k2)
                            (rigidLinearAccelerations k3) (rigidLinearAccelerations k4))
                      (zip4 (rigidAngularAccelerations k1) (rigidAngularAccelerations k2)
                            (rigidAngularAccelerations k3) (rigidAngularAccelerations k4)))) \<rparr> \<rparr>)"
      by blast
    note m2a = rk4Stage_masses[OF c(2) lp(1) ll(1) lan(1) la]
    note m2b = rk4Stage_masses[OF c(2) lp(1) ll(1) lan(1) lb]
    note m3a = rk4Stage_masses[OF c(4) lp(2) ll(2) lan(2) la]
    note m3b = rk4Stage_masses[OF c(4) lp(2) ll(2) lan(2) lb]
    note m4a = rk4Stage_masses[OF c(6) lp(3) ll(3) lan(3) la]
    note m4b = rk4Stage_masses[OF c(6) lp(3) ll(3) lan(3) lb]
    note z1 = derivative_momentum_zero[OF sp a b la lb ng nd ma' mb' c(1)]
    have z2: "vecAdd (vecScale (pointAccelerations k2 ! ia) (pm_mass (pointMasses (state e) ! ia)))
                (vecScale (pointAccelerations k2 ! ib) (pm_mass (pointMasses (state e) ! ib)))
              = (0, 0, 0)"
      using derivative_momentum_zero[OF sp a b _ _ ng nd _ _ c(3)] m2a m2b ma' mb' by simp
    have z3: "vecAdd (vecScale (pointAccelerations k3 ! ia) (pm_mass (pointMasses (state e) ! ia)))
                (vecScale (pointAccelerations k3 ! ib) (pm_mass (pointMasses (state e) ! ib)))
              = (0, 0, 0)"
      using derivative_momentum_zero[OF sp a b _ _ ng nd _ _ c(5)] m3a m3b ma' mb' by simp
    have z4: "vecAdd (vecScale (pointAccelerations k4 ! ia) (pm_mass (pointMasses (state e) ! ia)))
                (vecScale (pointAccelerations k4 ! ib) (pm_mass (pointMasses (state e) ! ib)))
              = (0, 0, 0)"
      using derivative_momentum_zero[OF sp a b _ _ ng nd _ _ c(7)] m4a m4b ma' mb' by simp
    note zb = vec_blend_zero[OF z1 z2 z3 z4]
    have l4: "length (pointMasses (state e)) \<le> length (zip4 (pointAccelerations k1)
               (pointAccelerations k2) (pointAccelerations k3) (pointAccelerations k4))"
      using lp by (simp add: length_zip4)
    have na: "zip4 (pointAccelerations k1) (pointAccelerations k2)
                   (pointAccelerations k3) (pointAccelerations k4) ! ia
              = (pointAccelerations k1 ! ia, pointAccelerations k2 ! ia,
                 pointAccelerations k3 ! ia, pointAccelerations k4 ! ia)"
      using la lp by (simp add: zip4_nth)
    have nb: "zip4 (pointAccelerations k1) (pointAccelerations k2)
                   (pointAccelerations k3) (pointAccelerations k4) ! ib
              = (pointAccelerations k1 ! ib, pointAccelerations k2 ! ib,
                 pointAccelerations k3 ! ib, pointAccelerations k4 ! ib)"
      using lb lp by (simp add: zip4_nth)
    have "pairMomentum \<lparr> time = time (state e) + dt e,
            stepIndex = stepIndex (state e) + 1,
            pointMasses = map (\<lambda>(p, ks). rk4PointMass (dt e) p ks)
              (zip (pointMasses (state e))
                 (zip4 (pointAccelerations k1) (pointAccelerations k2)
                       (pointAccelerations k3) (pointAccelerations k4))),
            rigidBodies = map (\<lambda>(r, ks). rk4RigidBody (dt e) r ks)
              (zip (rigidBodies (state e))
                 (zip (zip4 (rigidLinearAccelerations k1) (rigidLinearAccelerations k2)
                            (rigidLinearAccelerations k3) (rigidLinearAccelerations k4))
                      (zip4 (rigidAngularAccelerations k1) (rigidAngularAccelerations k2)
                            (rigidAngularAccelerations k3) (rigidAngularAccelerations k4)))) \<rparr> ia ib
        = pairMomentum (getState e) ia ib"
      unfolding P
    proof (rule pairMomentum_update[OF la lb l4,
          where w = "\<lambda>(k1, k2, k3, k4). rk4Blend k1 k2 k3 k4" and h = "dt e / 6"])
      show "\<And>p a. pm_mass (rk4PointMass (dt e) p a) = pm_mass p"
        by (simp add: rk4PointMass_frame)
      show "\<And>p a. pm_velocity (rk4PointMass (dt e) p a) =
          vecAdd (pm_velocity p) (vecScale ((\<lambda>(k1, k2, k3, k4). rk4Blend k1 k2 k3 k4) a) (dt e / 6))"
        by (simp add: rk4PointMass_def Let_def split: prod.splits)
      show "vecAdd
          (vecScale ((\<lambda>(k1, k2, k3, k4). rk4Blend k1 k2 k3 k4)
             (zip4 (pointAccelerations k1) (pointAccelerations k2)
                   (pointAccelerations k3) (pointAccelerations k4) ! ia))
             (pm_mass (pointMasses (state e) ! ia)))
          (vecScale ((\<lambda>(k1, k2, k3, k4). rk4Blend k1 k2 k3 k4)
             (zip4 (pointAccelerations k1) (pointAccelerations k2)
                   (pointAccelerations k3) (pointAccelerations k4) ! ib))
             (pm_mass (pointMasses (state e) ! ib))) = (0, 0, 0)"
        unfolding na nb using zb by simp
    qed
    with st e1(1) show ?thesis by (auto simp: getState_eq)
  qed
  qed
  have la0: "ia < length (pointMasses (state e))" and lb0: "ib < length (pointMasses (state e))"
    using engine_inv_range[OF inv a] engine_inv_range[OF inv b] by simp_all
  have acc: "\<exists>d. computeDerivative e (getState e) = Inr d \<and>
              pointAccelerations d ! ia =
                vecScale (springForceVec (pointMasses (getState e) ! ia)
                            (pointMasses (getState e) ! ib) s)
                         (1 / pm_mass (pointMasses (getState e) ! ia)) \<and>
              pointAccelerations d ! ib =
                vecScale (vecScale (springForceVec (pointMasses (getState e) ! ia)
                                      (pointMasses (getState e) ! ib) s) (- 1))
                         (1 / pm_mass (pointMasses (getState e) ! ib))"
    if ne: "ia \<noteq> ib"
    unfolding getState_eq
    by (rule derivative_single_spring[OF sp a b la0 lb0 ng nd ne refl])
  have "\<exists>e'. step e = Inr e' \<and>
           pairMomentum (getState e') ia ib = pairMomentum (getState e) ia ib \<and>
           engine_inv e' \<and> springs e' = [s] \<and>
           pointMassIndexById e' = pointMassIndexById e \<and> forces e' = forces e \<and>
           pm_mass (pointMasses (getState e') ! ia) = pm_mass (pointMasses (getState e) ! ia) \<and>
           pm_mass (pointMasses (getState e') ! ib) = pm_mass (pointMasses (getState e) ! ib)"
    using e1(1) mom inv1 keep(1,2,3) mass1[OF la0] mass1[OF lb0] by (simp add: getState_eq)
  with acc show ?thesis by blast
qed

text \<open>Witness for C4: the demonstration scene, whose momentum \<open>(0, 2, 0)\<close> is that of
  \<open>b\<close> alone at the start.\<close>

theorem spring_pair_momentum_conserved_witness:
  "(\<exists>e'. step demoEngine = Inr e' \<and>
      pairMomentum (getState e') 0 1 = (0, 2, 0)) \<and>
   (\<exists>d. computeDerivative demoEngine (getState demoEngine)
          = Inr d \<and>
      pointAccelerations d ! 0 = (- 10, 0, 0) \<and> pointAccelerations d ! 1 = (5, 0, 0))"
proof -
  let ?e = "demoEngine"
  have sp: "springs ?e = [demoSpring]"
    by (simp add: demo_engine)
  have a: "pointMassIndexById ?e (aId demoSpring) = Some 0"
    by (simp add: demo_engine demoSpring_def)
  have b: "pointMassIndexById ?e (bId demoSpring) = Some 1"
    by (simp add: demo_engine demoSpring_def)
  have ng: "Option.bind (forces ?e) gravity = None" by (simp add: demo_engine)
  have nd: "Option.bind (forces ?e) linearDrag = None" by (simp add: demo_engine)
  have ma: "pm_mass (pointMasses (getState ?e) ! 0) \<noteq> 0"
    by (simp add: getState_eq demo_engine)
  have mb: "pm_mass (pointMasses (getState ?e) ! 1) \<noteq> 0"
    by (simp add: getState_eq demo_engine)
  note T = spring_pair_momentum_conserved[OF demo_inv sp a b ng nd ma mb]
  from T[THEN conjunct1]
  obtain e' where e': "step ?e = Inr e'"
    "pairMomentum (getState e') 0 1 = pairMomentum (getState ?e) 0 1" by blast
  have "pairMomentum (getState ?e) 0 1 = (0, 2, 0)"
    by (simp add: pairMomentum_def getState_eq demo_engine)
  with e' have m: "\<exists>e'. step ?e = Inr e' \<and> pairMomentum (getState e') 0 1 = (0, 2, 0)"
    by auto
  have ne: "(0::nat) \<noteq> 1" by simp
  have F: "springForceVec (pointMasses (getState ?e) ! 0) (pointMasses (getState ?e) ! 1) demoSpring
           = (- 10, 0, 0)"
    by (simp add: springForceVec_def vecLength_def Let_def getState_eq demo_engine demoSpring_def)
  from T[THEN conjunct2, THEN mp, OF ne]
  obtain d where d: "computeDerivative ?e (getState ?e) = Inr d"
    "pointAccelerations d ! 0 =
       vecScale (springForceVec (pointMasses (getState ?e) ! 0) (pointMasses (getState ?e) ! 1)
                   demoSpring)
                (1 / pm_mass (pointMasses (getState ?e) ! 0))"
    "pointAccelerations d ! 1 =
       vecScale (vecScale (springForceVec (pointMasses (getState ?e) ! 0)
                             (pointMasses (getState ?e) ! 1) demoSpring) (- 1))
                (1 / pm_mass (pointMasses (getState ?e) ! 1))"
    by blast
  have "pointAccelerations d ! 0 = (- 10, 0, 0)" "pointAccelerations d ! 1 = (5, 0, 0)"
    unfolding d(2,3) F by (simp_all add: getState_eq demo_engine)
  with d(1) m show ?thesis by blast
qed

subsection \<open>C5\<close>




subsection \<open>C6\<close>



subsection \<open>C7\<close>

text \<open>
  Claim C7. Let the engine satisfy the class invariant and let \<open>s\<close> be one of its springs,
  at any place of the list, one of whose anchors is the id of no point mass. Then \<open>step\<close>
  returns normally, and the engine without \<open>s\<close> steps to the same result: the two results
  differ in the list of springs only and have the same state. The derivative evaluators
  of the two engines are the same function, so \<open>s\<close> adds no force to any body. The source
  writes no message anywhere in the engine, and the model has no output for one.
\<close>

theorem unresolved_spring_is_skipped:
  assumes inv: "engine_inv e"
    and sp: "springs e = xs @ s # ys"
    and un: "aId s \<notin> set (map pm_id (pointMasses (getState e))) \<or>
             bId s \<notin> set (map pm_id (pointMasses (getState e)))"
  shows "\<exists>e'. step e = Inr e' \<and>
           step (e\<lparr> springs := xs @ ys \<rparr>) = Inr (e'\<lparr> springs := xs @ ys \<rparr>) \<and>
           getState (e'\<lparr> springs := xs @ ys \<rparr>) = getState e' \<and>
           computeDerivative (e\<lparr> springs := xs @ ys \<rparr>) = computeDerivative e"
proof -
  have none: "pointMassIndexById e (aId s) = None \<or> pointMassIndexById e (bId s) = None"
    using un engine_inv_None[OF inv] by (auto simp: getState_eq)
  have cd: "computeDerivative (e\<lparr> springs := xs @ ys \<rparr>) = computeDerivative e"
    using computeDerivative_skip[OF none sp] by (intro ext)
  from step_ok_frame[OF inv] obtain e' where e': "step e = Inr e'" by blast
  then obtain next_state where n: "pickIntegrator (integratorName e)
       \<lparr> ctx_computeDerivative = computeDerivative e, ctx_dt = dt e \<rparr> (state e) = Inr next_state"
    and e'_eq: "e' = e\<lparr> state := next_state \<rparr>"
    by (auto simp: step_def Let_def bindE_def split: sum.splits)
  have "step (e\<lparr> springs := xs @ ys \<rparr>) = Inr (e'\<lparr> springs := xs @ ys \<rparr>)"
    by (simp add: step_def Let_def cd n bindE_Inr e'_eq)
  with e' cd show ?thesis by (simp add: getState_def)
qed

text \<open>Witness for C7: the demonstration scene with a second spring, from \<open>a\<close> to an id
  that no point mass has.\<close>

theorem unresolved_spring_is_skipped_witness:
  "\<exists>e'. step ghostEngine
           = Inr e' \<and>
     step (ghostEngine
             \<lparr> springs := [demoSpring] @ [] \<rparr>)
       = Inr (e'\<lparr> springs := [demoSpring] @ [] \<rparr>) \<and>
     getState (e'\<lparr> springs := [demoSpring] @ [] \<rparr>) = getState e' \<and>
     computeDerivative
       (ghostEngine
          \<lparr> springs := [demoSpring] @ [] \<rparr>)
       = computeDerivative
           ghostEngine"
proof -
  let ?e = "ghostEngine"
  have inv: "engine_inv ?e"
    by (simp add: engine_inv_def newPhysicsEngine_def demoConfig_def orEmpty_def)
  have sp: "springs ?e = [demoSpring] @ ghostSpring # []"
    by (simp add: newPhysicsEngine_def orEmpty_def)
  have un: "aId ghostSpring \<notin> set (map pm_id (pointMasses (getState ?e))) \<or>
            bId ghostSpring \<notin> set (map pm_id (pointMasses (getState ?e)))"
    by (simp add: getState_eq newPhysicsEngine_def demoConfig_def orEmpty_def ghostSpring_def)
  from unresolved_spring_is_skipped[OF inv sp un] show ?thesis .
qed

subsection \<open>C8\<close>

text \<open>
  Claim C8. When \<open>objectId\<close> is the id of no point mass and of no rigid body of an engine
  that satisfies the class invariant, \<open>applyImpulse\<close> returns normally and the engine,
  with its whole state, is as before.
\<close>

theorem applyImpulse_unknown_id_noop:
  "engine_inv e \<Longrightarrow>
   objectId \<notin> set (map pm_id (pointMasses (getState e))) \<Longrightarrow>
   objectId \<notin> set (map rb_id (rigidBodies (getState e))) \<Longrightarrow>
   applyImpulse e objectId impulse = Inr e"
proof -
  assume inv: "engine_inv e"
    and np: "objectId \<notin> set (map pm_id (pointMasses (getState e)))"
    and nr: "objectId \<notin> set (map rb_id (rigidBodies (getState e)))"
  from np have "pointMassIndexById e objectId = None"
    using engine_inv_None[OF inv] by (simp add: getState_eq)
  moreover from nr have "impulseFirstRigidBody objectId impulse (rigidBodies (state e))
      = rigidBodies (state e)"
    by (simp add: impulseFirstRigidBody_none getState_eq)
  ultimately show ?thesis by (simp add: applyImpulse_def)
qed

text \<open>Witness for C8: an impulse for the id \<open>ghost\<close>, which the demonstration scene does
  not have.\<close>

theorem applyImpulse_unknown_id_noop_witness:
  "applyImpulse demoEngine ''ghost'' (1, 2, 3) = Inr demoEngine"
proof -
  have inv: "engine_inv demoEngine"
    by (simp add: engine_inv_def newPhysicsEngine_def demoConfig_def orEmpty_def)
  have np: "''ghost'' \<notin> set (map pm_id (pointMasses (getState demoEngine)))"
    by (simp add: getState_eq newPhysicsEngine_def demoConfig_def orEmpty_def)
  have nr: "''ghost'' \<notin> set (map rb_id (rigidBodies (getState demoEngine)))"
    by (simp add: getState_eq newPhysicsEngine_def demoConfig_def orEmpty_def)
  from applyImpulse_unknown_id_noop[OF inv np nr] show ?thesis .
qed

subsection \<open>C9\<close>



subsection \<open>C10\<close>

text \<open>
  Claim C10. Every \<open>step\<close> of an engine that satisfies the class invariant, with any
  integrator, returns normally and leaves the number and order of the point masses and of
  the rigid bodies, every id and mass, and every rigid body's size unchanged. The
  remaining fields of the state are position, velocity, orientation, angularVelocity,
  time and stepIndex.
\<close>

theorem step_keeps_bodies_ids_masses_sizes:
  "engine_inv e \<Longrightarrow>
   \<exists>e'. step e = Inr e' \<and>
     length (pointMasses (getState e')) = length (pointMasses (getState e)) \<and>
     length (rigidBodies (getState e')) = length (rigidBodies (getState e)) \<and>
     map pm_id (pointMasses (getState e')) = map pm_id (pointMasses (getState e)) \<and>
     map pm_mass (pointMasses (getState e')) = map pm_mass (pointMasses (getState e)) \<and>
     map rb_id (rigidBodies (getState e')) = map rb_id (rigidBodies (getState e)) \<and>
     map rb_mass (rigidBodies (getState e')) = map rb_mass (rigidBodies (getState e)) \<and>
     map rb_size (rigidBodies (getState e')) = map rb_size (rigidBodies (getState e))"
proof -
  assume inv: "engine_inv e"
  from step_ok_frame[OF inv] obtain e' where e': "step e = Inr e'" "step_frame e e'" by blast
  from e'(2) have m: "map pm_id (pointMasses (state e')) = map pm_id (pointMasses (state e))"
    "map pm_mass (pointMasses (state e')) = map pm_mass (pointMasses (state e))"
    "map rb_id (rigidBodies (state e')) = map rb_id (rigidBodies (state e))"
    "map rb_mass (rigidBodies (state e')) = map rb_mass (rigidBodies (state e))"
    "map rb_size (rigidBodies (state e')) = map rb_size (rigidBodies (state e))"
    by (simp_all add: step_frame_def)
  from m(1) have "length (pointMasses (state e')) = length (pointMasses (state e))"
    by (rule map_eq_imp_length_eq)
  moreover from m(3) have "length (rigidBodies (state e')) = length (rigidBodies (state e))"
    by (rule map_eq_imp_length_eq)
  ultimately show ?thesis using e'(1) m by (simp add: getState_eq)
qed

text \<open>Witness for C10: one step of the demonstration scene.\<close>

theorem step_keeps_bodies_ids_masses_sizes_witness:
  "\<exists>e'. step demoEngine = Inr e' \<and>
     length (pointMasses (getState e')) = 2 \<and>
     length (rigidBodies (getState e')) = 1 \<and>
     map pm_id (pointMasses (getState e')) = [''a'', ''b''] \<and>
     map pm_mass (pointMasses (getState e')) = [1, 2] \<and>
     map rb_id (rigidBodies (getState e')) = [''box''] \<and>
     map rb_mass (rigidBodies (getState e')) = [1] \<and>
     map rb_size (rigidBodies (getState e')) = [(1, 1, 1)]"
proof -
  have inv: "engine_inv demoEngine"
    by (simp add: engine_inv_def newPhysicsEngine_def demoConfig_def orEmpty_def)
  have init: "pointMasses (getState demoEngine) =
      [\<lparr> pm_id = ''a'', pm_mass = 1, pm_position = (0, 0, 0), pm_velocity = (0, 0, 0) \<rparr>,
       \<lparr> pm_id = ''b'', pm_mass = 2, pm_position = (2, 0, 0), pm_velocity = (0, 1, 0) \<rparr>]"
    "rigidBodies (getState demoEngine) =
      [\<lparr> rb_id = ''box'', rb_mass = 1, rb_size = (1, 1, 1), rb_position = (0, 5, 0),
          rb_velocity = (0, 0, 0), rb_orientation = (0, 0, 0, 2),
          rb_angularVelocity = (0, 1, 0) \<rparr>]"
    by (simp_all add: getState_eq newPhysicsEngine_def demoConfig_def orEmpty_def)
  from step_keeps_bodies_ids_masses_sizes[OF inv] obtain e' where
    e': "step demoEngine = Inr e'"
      "length (pointMasses (getState e')) = length (pointMasses (getState demoEngine))"
      "length (rigidBodies (getState e')) = length (rigidBodies (getState demoEngine))"
      "map pm_id (pointMasses (getState e')) = map pm_id (pointMasses (getState demoEngine))"
      "map pm_mass (pointMasses (getState e')) = map pm_mass (pointMasses (getState demoEngine))"
      "map rb_id (rigidBodies (getState e')) = map rb_id (rigidBodies (getState demoEngine))"
      "map rb_mass (rigidBodies (getState e')) = map rb_mass (rigidBodies (getState demoEngine))"
      "map rb_size (rigidBodies (getState e')) = map rb_size (rigidBodies (getState demoEngine))"
    by blast
  show ?thesis
    by (rule exI[of _ e']) (simp add: e' init)
qed

end
